theory Spec2Isabelle
  imports Complex_Main "HOL-Library.Multiset"
begin

section \<open>JavaScript strings\<close>

text \<open>
  A JavaScript string is a sequence of UTF-16 code units. A code unit is modelled by its
  number, so that the whole whitespace set of \<^verbatim>\<open>String.prototype.trim\<close> can be written
  down. \<open>js\<close> turns an ASCII literal into its code units.
\<close>

type_synonym js_string = "nat list"

definition js :: "string \<Rightarrow> js_string" where
  "js s = map of_char s"

text \<open>
  The characters removed by \<^verbatim>\<open>trim\<close>: ECMAScript WhiteSpace (TAB, VT, FF, ZWNBSP and
  the Unicode space separators) and LineTerminator (LF, CR, LS, PS).
\<close>

definition is_white_space :: "nat \<Rightarrow> bool" where
  "is_white_space c \<longleftrightarrow>
     c = 9 \<or> c = 10 \<or> c = 11 \<or> c = 12 \<or> c = 13 \<or> c = 32 \<or> c = 160 \<or> c = 5760 \<or>
     (8192 \<le> c \<and> c \<le> 8202) \<or> c = 8232 \<or> c = 8233 \<or> c = 8239 \<or> c = 8287 \<or>
     c = 12288 \<or> c = 65279"

definition trim :: "js_string \<Rightarrow> js_string" where
  "trim s = rev (dropWhile is_white_space (rev (dropWhile is_white_space s)))"

section \<open>Regular expressions\<close>

text \<open>
  \<^verbatim>\<open>regex.test(s)\<close> for a pattern anchored with \<^verbatim>\<open>^\<close> and \<^verbatim>\<open>$\<close> and no flags accepts
  exactly when the whole string matches the pattern between the anchors. The matcher
  works by derivatives. A character class is a list of inclusive code-unit ranges.
\<close>

datatype regex =
    Zero
  | One
  | Class "(nat \<times> nat) list"
  | Alt regex regex
  | Seq regex regex
  | Star regex

fun in_class :: "(nat \<times> nat) list \<Rightarrow> nat \<Rightarrow> bool" where
  "in_class [] c = False"
| "in_class ((lo, hi) # rs) c = ((lo \<le> c \<and> c \<le> hi) \<or> in_class rs c)"

fun nullable :: "regex \<Rightarrow> bool" where
  "nullable Zero = False"
| "nullable One = True"
| "nullable (Class rs) = False"
| "nullable (Alt r s) = (nullable r \<or> nullable s)"
| "nullable (Seq r s) = (nullable r \<and> nullable s)"
| "nullable (Star r) = True"

fun deriv :: "nat \<Rightarrow> regex \<Rightarrow> regex" where
  "deriv c Zero = Zero"
| "deriv c One = Zero"
| "deriv c (Class rs) = (if in_class rs c then One else Zero)"
| "deriv c (Alt r s) = Alt (deriv c r) (deriv c s)"
| "deriv c (Seq r s) =
     (if nullable r then Alt (Seq (deriv c r) s) (deriv c s) else Seq (deriv c r) s)"
| "deriv c (Star r) = Seq (deriv c r) (Star r)"

fun matches :: "regex \<Rightarrow> js_string \<Rightarrow> bool" where
  "matches r [] = nullable r"
| "matches r (c # cs) = matches (deriv c r) cs"

definition Plus :: "regex \<Rightarrow> regex" where
  "Plus r = Seq r (Star r)"

section \<open>Validator\<close>

text \<open>
  \<^verbatim>\<open>
  const isValidMaterial = (code) => {
    const trimmed = (code || "").trim();
    if (!trimmed) return false;
    const regex = /^[0-9A-Za-z-]+$/;
    return regex.test(trimmed);
  };
  \<close>
  The class \<^verbatim>\<open>[0-9A-Za-z-]\<close> is the ranges 0-9, A-Z, a-z and the hyphen. For a string
  argument \<^verbatim>\<open>code || ""\<close> is the argument itself.
\<close>

definition material_class :: "(nat \<times> nat) list" where
  "material_class = [(48, 57), (65, 90), (97, 122), (45, 45)]"

definition material_regex :: regex where
  "material_regex = Plus (Class material_class)"

definition isValidMaterial :: "js_string \<Rightarrow> bool" where
  "isValidMaterial code =
     (let trimmed = trim code in
      if trimmed = [] then False else matches material_regex trimmed)"

definition is_digit :: "nat \<Rightarrow> bool" where
  "is_digit c \<longleftrightarrow> of_char (CHR ''0'') \<le> c \<and> c \<le> of_char (CHR ''9'')"

definition is_ascii_letter :: "nat \<Rightarrow> bool" where
  "is_ascii_letter c \<longleftrightarrow>
     (of_char (CHR ''A'') \<le> c \<and> c \<le> of_char (CHR ''Z'')) \<or>
     (of_char (CHR ''a'') \<le> c \<and> c \<le> of_char (CHR ''z''))"

definition is_hyphen :: "nat \<Rightarrow> bool" where
  "is_hyphen c \<longleftrightarrow> c = of_char (CHR ''-'')"

section \<open>Pegging payload and demo data\<close>

text \<open>
  The JSON object of \<^verbatim>\<open>/pegging/ia-lite\<close>. A field that the backend may leave out (or
  send as \<^verbatim>\<open>null\<close>) is an option: the code reads such fields through \<^verbatim>\<open>??\<close> and
  \<^verbatim>\<open>?.\<close>, which treat both alike. \<open>ordens\<close> is \<open>None\<close> when the field is not an array
  (\<^verbatim>\<open>Array.isArray\<close> fails); \<open>sem_ordens\<close> is the truthiness of that field. JavaScript
  numbers are only copied and compared here; those of a JSON body are finite, and are
  modelled as reals.
\<close>

record pegging_order =
  op_ordem :: "js_string option"
  op_material :: "js_string option"
  op_data_fim :: "js_string option"
  op_atraso_dias :: "real option"
  op_backlog_qtd :: "real option"
  op_criticidade_score :: "real option"

record pegging_payload =
  material :: "js_string option"
  descricao :: "js_string option"
  cobertura_atual_dias :: "real option"
  total_ordens_vinculadas :: "real option"
  ordens_atrasadas :: "real option"
  maior_atraso_dias :: "real option"
  ordens :: "pegging_order list option"
  sem_ordens :: bool

definition DEFAULT_MATERIAL :: js_string where
  "DEFAULT_MATERIAL = js ''4011835-AA''"

definition demo_order :: "string \<Rightarrow> string \<Rightarrow> real \<Rightarrow> real \<Rightarrow> real \<Rightarrow> pegging_order" where
  "demo_order num fim atraso backlog score =
     \<lparr> op_ordem = Some (js num), op_material = Some (js ''4011835-AA''),
       op_data_fim = Some (js fim), op_atraso_dias = Some atraso,
       op_backlog_qtd = Some backlog, op_criticidade_score = Some score \<rparr>"

definition DEMO_ordens :: "pegging_order list" where
  "DEMO_ordens =
     [ demo_order ''00000045'' ''2025-12-10'' 3 450 91.3,
       demo_order ''00000048'' ''2025-12-12'' 1 220 84.7,
       demo_order ''00000052'' ''2025-12-18'' 0 0 72.1,
       demo_order ''00000057'' ''2025-12-22'' 0 0 65.3,
       demo_order ''00000060'' ''2025-12-29'' 0 0 58.9 ]"

text \<open>The description holds an en dash (U+2013) between its two parts.\<close>

definition DEMO_PEGGING_4011835 :: pegging_payload where
  "DEMO_PEGGING_4011835 =
     \<lparr> material = Some (js ''4011835-AA''),
       descricao = Some (js ''Conjunto Airbag '' @ [8211] @ js '' Volante''),
       cobertura_atual_dias = Some 5.2,
       total_ordens_vinculadas = Some 5,
       ordens_atrasadas = Some 2,
       maior_atraso_dias = Some 3,
       ordens = Some DEMO_ordens,
       sem_ordens = False \<rparr>"

text \<open>
  \<^verbatim>\<open>
  const buildDemoResult = (code) => {
    const clean = (code || "").trim();
    if (!clean) return null;
    if (clean === DEFAULT_MATERIAL) { return DEMO_PEGGING_4011835; }
    return {
      ...DEMO_PEGGING_4011835,
      material: clean,
      ordens: DEMO_PEGGING_4011835.ordens.map((op) => ({ ...op, material: clean })),
    };
  };
  \<close>
  An object spread followed by a property is a record update.
\<close>

definition buildDemoResult :: "js_string \<Rightarrow> pegging_payload option" where
  "buildDemoResult code =
     (let clean = trim code in
      if clean = [] then None
      else if clean = DEFAULT_MATERIAL then Some DEMO_PEGGING_4011835
      else Some (DEMO_PEGGING_4011835
             \<lparr> material := Some clean,
               ordens := Some (map (\<lambda>op. op\<lparr>op_material := Some clean\<rparr>) DEMO_ordens) \<rparr>))"

text \<open>Two orders agree on every field but the material.\<close>

definition same_order_fields :: "pegging_order \<Rightarrow> pegging_order \<Rightarrow> bool" where
  "same_order_fields a b \<longleftrightarrow>
     op_ordem a = op_ordem b \<and> op_data_fim a = op_data_fim b \<and>
     op_atraso_dias a = op_atraso_dias b \<and> op_backlog_qtd a = op_backlog_qtd b \<and>
     op_criticidade_score a = op_criticidade_score b"

text \<open>Two payloads agree on every top-level field but the material and the orders.\<close>

definition same_summary_fields :: "pegging_payload \<Rightarrow> pegging_payload \<Rightarrow> bool" where
  "same_summary_fields a b \<longleftrightarrow>
     descricao a = descricao b \<and> cobertura_atual_dias a = cobertura_atual_dias b \<and>
     total_ordens_vinculadas a = total_ordens_vinculadas b \<and>
     ordens_atrasadas a = ordens_atrasadas b \<and>
     maior_atraso_dias a = maior_atraso_dias b \<and> sem_ordens a = sem_ordens b"

fun ordens_list :: "pegging_payload \<Rightarrow> pegging_order list" where
  "ordens_list p = (case ordens p of None \<Rightarrow> [] | Some os \<Rightarrow> os)"

section \<open>Fetch outcomes\<close>

text \<open>
  What \<^verbatim>\<open>await fetch(url)\<close> followed by \<^verbatim>\<open>await resp.json()\<close> can deliver. The fetch
  promise rejects (network failure, CORS) or resolves with a response that carries a
  status; \<^verbatim>\<open>resp.ok\<close> is true for a status from 200 to 299. Reading the body rejects
  (malformed JSON) or resolves with the parsed value. A rejection carries the message
  of the error thrown. No handler changes state between the two awaits, so both are
  delivered in one step.
\<close>

datatype 'j body = JsonRejects js_string | JsonResolves 'j

datatype 'j fetch_outcome = FetchRejects js_string | FetchResolves nat "'j body"

definition resp_ok :: "nat \<Rightarrow> bool" where
  "resp_ok status \<longleftrightarrow> 200 \<le> status \<and> status \<le> 299"

text \<open>A fetch that does not deliver a parsed body of an ok response.\<close>

fun fetch_failed :: "'j fetch_outcome \<Rightarrow> bool" where
  "fetch_failed (FetchRejects e) = True"
| "fetch_failed (FetchResolves status (JsonRejects e)) = True"
| "fetch_failed (FetchResolves status (JsonResolves j)) = (\<not> resp_ok status)"

text \<open>The decimal digits of a number, as a template literal prints a status.\<close>

fun show_nat :: "nat \<Rightarrow> js_string" where
  "show_nat n = (if n < 10 then [48 + n] else show_nat (n div 10) @ [48 + n mod 10])"

section \<open>Pegging panel\<close>

text \<open>
  The component state of \<^verbatim>\<open>PeggingIaLite\<close>: \<^verbatim>\<open>materialInput\<close>, \<^verbatim>\<open>loading\<close>, \<^verbatim>\<open>error\<close>
  and \<^verbatim>\<open>result\<close>. The result is \<open>None\<close> for \<^verbatim>\<open>null\<close> (or another falsy JSON value).
  The repository holds two versions of the component with the same state, the same
  validator, the same synchronous part of \<^verbatim>\<open>handleLoadPegging\<close> and the same markup:
  \<^verbatim>\<open>frontend/src/PeggingIaLite.js\<close>, without demo data, and a second file with
  \<^verbatim>\<open>buildDemoResult\<close>. The file marked OLD holds a superseded component of another
  shape (it reads the planning-board resource and has no validator); it is left out.
\<close>

record pegging_state =
  pg_materialInput :: js_string
  pg_loading :: bool
  pg_error :: js_string
  pg_result :: "pegging_payload option"

definition pegging_initial :: pegging_state where
  "pegging_initial =
     \<lparr> pg_materialInput = DEFAULT_MATERIAL, pg_loading = False, pg_error = [],
       pg_result = None \<rparr>"

text \<open>The two messages of the panel; 243, 225, 227 and 237 are the accented letters.\<close>

definition MSG_INVALID_MATERIAL :: js_string where
  \<open>MSG_INVALID_MATERIAL =
     js ''Informe um c'' @ [243] @ js ''digo de material v'' @ [225] @
     js ''lido. Ex: "4011835-AA".''\<close>

definition MSG_PEGGING_FAILED :: js_string where
  "MSG_PEGGING_FAILED =
     js ''N'' @ [227] @ js ''o foi poss'' @ [237] @
     js ''vel carregar o Pegging IA para este material. Tente novamente.''"

text \<open>
  \<^verbatim>\<open>handleLoadPegging\<close> is an async function. Its synchronous part runs up to the
  fetch and returns the new state with the code of the request issued, if any:
  \<^verbatim>\<open>
    const code = materialInput.trim();
    if (!isValidMaterial(code)) {
      setError('Informe um codigo de material valido. Ex: "4011835-AA".');
      setResult(null);
      return;
    }
    try {
      setLoading(true);
      setError("");
      setResult(null);
      const resp = await fetch(`${API_BASE}/pegging/ia-lite?material=${encodeURIComponent(code)}`);
  \<close>
\<close>

definition handleLoadPegging_start :: "pegging_state \<Rightarrow> pegging_state \<times> js_string option" where
  "handleLoadPegging_start st =
     (let code = trim (pg_materialInput st) in
      if \<not> isValidMaterial code
      then (st\<lparr>pg_error := MSG_INVALID_MATERIAL, pg_result := None\<rparr>, None)
      else (st\<lparr>pg_loading := True, pg_error := [], pg_result := None\<rparr>, Some code))"

text \<open>
  The rest of the function, in \<^verbatim>\<open>frontend/src/PeggingIaLite.js\<close>, once the fetch has
  settled. The \<^verbatim>\<open>try\<close> part gives the error thrown or the state it reached:
  \<^verbatim>\<open>
      if (!resp.ok) { throw new Error(`Erro ao buscar Pegging IA (${resp.status})`); }
      const json = await resp.json();
      setResult(json);
    } catch (err) {
      console.error(err);
      setError("Nao foi possivel carregar o Pegging IA para este material. Tente novamente.");
    } finally {
      setLoading(false);
    }
  \<close>
\<close>

definition pegging_status_error :: "nat \<Rightarrow> js_string" where
  "pegging_status_error status = js ''Erro ao buscar Pegging IA ('' @ show_nat status @ js '')''"

fun handleLoadPegging_try ::
  "pegging_payload option fetch_outcome \<Rightarrow> pegging_state \<Rightarrow> js_string + pegging_state" where
  "handleLoadPegging_try (FetchRejects e) st = Inl e"
| "handleLoadPegging_try (FetchResolves status b) st =
     (if \<not> resp_ok status then Inl (pegging_status_error status)
      else case b of
        JsonRejects e \<Rightarrow> Inl e
      | JsonResolves json \<Rightarrow> Inr (st\<lparr>pg_result := json\<rparr>))"

definition handleLoadPegging_catch :: "js_string \<Rightarrow> pegging_state \<Rightarrow> pegging_state" where
  "handleLoadPegging_catch err st = st\<lparr>pg_error := MSG_PEGGING_FAILED\<rparr>"

definition handleLoadPegging_finally :: "pegging_state \<Rightarrow> pegging_state" where
  "handleLoadPegging_finally st = st\<lparr>pg_loading := False\<rparr>"

definition handleLoadPegging_settle ::
  "pegging_payload option fetch_outcome \<Rightarrow> pegging_state \<Rightarrow> pegging_state" where
  "handleLoadPegging_settle outcome st =
     handleLoadPegging_finally
       (case handleLoadPegging_try outcome st of
          Inl err \<Rightarrow> handleLoadPegging_catch err st
        | Inr st' \<Rightarrow> st')"

text \<open>
  The rest of the function in the version with demo data:
  \<^verbatim>\<open>
      if (!resp.ok) {
        console.warn(...);
        const demo = buildDemoResult(code);
        if (demo) { setResult(demo); return; }
        throw new Error(`Erro ao buscar Pegging IA (${resp.status})`);
      }
      const json = await resp.json();
      setResult(json);
    } catch (err) {
      console.error(err);
      const demo = buildDemoResult(code);
      if (demo) { setResult(demo); setError(""); return; }
      setError("Nao foi possivel carregar o Pegging IA para este material. Tente novamente.");
    } finally {
      setLoading(false);
    }
  \<close>
\<close>

fun handleLoadPeggingDemo_try ::
  "js_string \<Rightarrow> pegging_payload option fetch_outcome \<Rightarrow> pegging_state \<Rightarrow>
   js_string + pegging_state" where
  "handleLoadPeggingDemo_try code (FetchRejects e) st = Inl e"
| "handleLoadPeggingDemo_try code (FetchResolves status b) st =
     (if \<not> resp_ok status then
        (case buildDemoResult code of
           Some demo \<Rightarrow> Inr (st\<lparr>pg_result := Some demo\<rparr>)
         | None \<Rightarrow> Inl (pegging_status_error status))
      else case b of
        JsonRejects e \<Rightarrow> Inl e
      | JsonResolves json \<Rightarrow> Inr (st\<lparr>pg_result := json\<rparr>))"

definition handleLoadPeggingDemo_catch ::
  "js_string \<Rightarrow> js_string \<Rightarrow> pegging_state \<Rightarrow> pegging_state" where
  "handleLoadPeggingDemo_catch code err st =
     (case buildDemoResult code of
        Some demo \<Rightarrow> st\<lparr>pg_result := Some demo, pg_error := []\<rparr>
      | None \<Rightarrow> st\<lparr>pg_error := MSG_PEGGING_FAILED\<rparr>)"

definition handleLoadPeggingDemo_settle ::
  "js_string \<Rightarrow> pegging_payload option fetch_outcome \<Rightarrow> pegging_state \<Rightarrow> pegging_state" where
  "handleLoadPeggingDemo_settle code outcome st =
     handleLoadPegging_finally
       (case handleLoadPeggingDemo_try code outcome st of
          Inl err \<Rightarrow> handleLoadPeggingDemo_catch code err st
        | Inr st' \<Rightarrow> st')"

text \<open>
  What the component renders, block by block:
  \<^verbatim>\<open>
  const ordens = Array.isArray(result?.ordens) ? result.ordens : [];
  const nenhumaOrdem =
    !loading && !error && result && (ordens.length === 0 || result.sem_ordens);
  ...
  <button ... onClick={handleLoadPegging} disabled={loading}>
  {error && <div className="status-box error">{error}</div>}
  {loading && !error && (<div className="status-box">Carregando Pegging IA...</div>)}
  {result && !loading && !error && ( ...summary cards... )}
  {nenhumaOrdem && (<div className="status-box">Nenhuma ordem vinculada ...</div>)}
  {ordens.length > 0 && ( ...one card per order... )}
  \<close>
\<close>

definition pegging_ordens :: "pegging_state \<Rightarrow> pegging_order list" where
  "pegging_ordens st = (case pg_result st of None \<Rightarrow> [] | Some r \<Rightarrow> ordens_list r)"

definition nenhumaOrdem :: "pegging_state \<Rightarrow> bool" where
  "nenhumaOrdem st \<longleftrightarrow>
     \<not> pg_loading st \<and> pg_error st = [] \<and>
     (case pg_result st of
        None \<Rightarrow> False
      | Some r \<Rightarrow> length (pegging_ordens st) = 0 \<or> sem_ordens r)"

record pegging_view =
  pv_button_disabled :: bool
  pv_error_banner :: "js_string option"
  pv_loading_box :: bool
  pv_summary :: "pegging_payload option"
  pv_empty_message :: bool
  pv_order_cards :: "pegging_order list"

definition pegging_render :: "pegging_state \<Rightarrow> pegging_view" where
  "pegging_render st =
     \<lparr> pv_button_disabled = pg_loading st,
       pv_error_banner = (if pg_error st \<noteq> [] then Some (pg_error st) else None),
       pv_loading_box = (pg_loading st \<and> pg_error st = []),
       pv_summary =
         (if pg_result st \<noteq> None \<and> \<not> pg_loading st \<and> pg_error st = []
          then pg_result st else None),
       pv_empty_message = nenhumaOrdem st,
       pv_order_cards = pegging_ordens st \<rparr>"

section \<open>Planning board panel\<close>

text \<open>
  The component state of \<^verbatim>\<open>PlanningBoardIa\<close>: \<^verbatim>\<open>materialCode\<close>, \<^verbatim>\<open>board\<close>,
  \<^verbatim>\<open>loadingBoard\<close> and \<^verbatim>\<open>error\<close>. The board payload is only stored and shown, so its
  type is left open.
\<close>

record 'b board_state =
  pb_materialCode :: js_string
  pb_board :: "'b option"
  pb_loadingBoard :: bool
  pb_error :: js_string

definition board_initial :: "'b board_state" where
  "board_initial =
     \<lparr> pb_materialCode = DEFAULT_MATERIAL, pb_board = None, pb_loadingBoard = False,
       pb_error = [] \<rparr>"

definition MSG_BOARD_FAILED :: js_string where
  "MSG_BOARD_FAILED =
     js ''N'' @ [227] @ js ''o foi poss'' @ [237] @ js ''vel carregar o Planning Board IA.''"

text \<open>
  \<^verbatim>\<open>
  const loadBoard = async (code) => {
    if (!code) return;
    try {
      setLoadingBoard(true);
      setError("");
      const resp = await fetch(`${API_BASE}/planning/board/${code}`);
      if (!resp.ok) { throw new Error(`Erro ao buscar Planning Board (${resp.status})`); }
      const json = await resp.json();
      setBoard(json);
    } catch (err) {
      console.error(err);
      setError("Nao foi possivel carregar o Planning Board IA.");
      setBoard(null);
    } finally {
      setLoadingBoard(false);
    }
  };
  \<close>
\<close>

definition loadBoard_start :: "js_string \<Rightarrow> 'b board_state \<Rightarrow> 'b board_state \<times> js_string option" where
  "loadBoard_start code st =
     (if code = [] then (st, None)
      else (st\<lparr>pb_loadingBoard := True, pb_error := []\<rparr>, Some code))"

definition board_status_error :: "nat \<Rightarrow> js_string" where
  "board_status_error status =
     js ''Erro ao buscar Planning Board ('' @ show_nat status @ js '')''"

fun loadBoard_try :: "'b option fetch_outcome \<Rightarrow> 'b board_state \<Rightarrow> js_string + 'b board_state" where
  "loadBoard_try (FetchRejects e) st = Inl e"
| "loadBoard_try (FetchResolves status b) st =
     (if \<not> resp_ok status then Inl (board_status_error status)
      else case b of
        JsonRejects e \<Rightarrow> Inl e
      | JsonResolves json \<Rightarrow> Inr (st\<lparr>pb_board := json\<rparr>))"

definition loadBoard_catch :: "js_string \<Rightarrow> 'b board_state \<Rightarrow> 'b board_state" where
  "loadBoard_catch err st = st\<lparr>pb_error := MSG_BOARD_FAILED, pb_board := None\<rparr>"

definition loadBoard_finally :: "'b board_state \<Rightarrow> 'b board_state" where
  "loadBoard_finally st = st\<lparr>pb_loadingBoard := False\<rparr>"

definition loadBoard_settle :: "'b option fetch_outcome \<Rightarrow> 'b board_state \<Rightarrow> 'b board_state" where
  "loadBoard_settle outcome st =
     loadBoard_finally
       (case loadBoard_try outcome st of
          Inl err \<Rightarrow> loadBoard_catch err st
        | Inr st' \<Rightarrow> st')"

text \<open>
  \<^verbatim>\<open>
  useEffect(() => { loadBoard(materialCode); }, []);

  const handleSubmit = (e) => {
    e.preventDefault();
    if (!materialCode) return;
    loadBoard(materialCode.trim());
  };
  \<close>
\<close>

definition board_mount :: "'b board_state \<Rightarrow> 'b board_state \<times> js_string option" where
  "board_mount st = loadBoard_start (pb_materialCode st) st"

definition handleSubmit :: "'b board_state \<Rightarrow> 'b board_state \<times> js_string option" where
  "handleSubmit st =
     (if pb_materialCode st = [] then (st, None)
      else loadBoard_start (trim (pb_materialCode st)) st)"

text \<open>
  \<^verbatim>\<open>
  {loadingBoard && (<div className="status-box">Carregando materiais...</div>)}
  {error && <div className="status-box error">{error}</div>}
  {board && !loadingBoard && ( ...cards, chart, recommendations, orders... )}
  \<close>
\<close>

record 'b board_view =
  bv_loading_box :: bool
  bv_error_banner :: "js_string option"
  bv_board :: "'b option"

definition board_render :: "'b board_state \<Rightarrow> 'b board_view" where
  "board_render st =
     \<lparr> bv_loading_box = pb_loadingBoard st,
       bv_error_banner = (if pb_error st \<noteq> [] then Some (pb_error st) else None),
       bv_board = (if pb_board st \<noteq> None \<and> \<not> pb_loadingBoard st then pb_board st else None) \<rparr>"

section \<open>Panels and their requests in flight\<close>

text \<open>
  A panel is one mounted instance of a component, together with the requests it has
  issued and that have not settled yet. Each request has a sequence number (the order of
  issue) and the code captured by its handler. The browser runs one handler at a time: an
  event runs the synchronous part of a handler, and the arrival of a response runs the
  rest of the handler that waits for it. The component is rendered again after each of
  them, so a handler reads the state left by the one before.
\<close>

record 's sys =
  ui :: 's
  pending :: "(nat \<times> js_string) list"
  issued :: nat

definition sys_initial :: "'s \<Rightarrow> 's sys" where
  "sys_initial st = \<lparr> ui = st, pending = [], issued = 0 \<rparr>"

definition dispatch :: "'s \<times> js_string option \<Rightarrow> 's sys \<Rightarrow> 's sys" where
  "dispatch r s =
     (case snd r of
        None \<Rightarrow> s\<lparr>ui := fst r\<rparr>
      | Some code \<Rightarrow>
          s\<lparr>ui := fst r, pending := pending s @ [(issued s, code)], issued := Suc (issued s)\<rparr>)"

definition forget :: "nat \<Rightarrow> (nat \<times> js_string) list \<Rightarrow> (nat \<times> js_string) list" where
  "forget rid ps = filter (\<lambda>p. fst p \<noteq> rid) ps"

datatype 'j event =
    Mount
  | Change js_string
  | Submit
  | Settle nat "'j fetch_outcome"

text \<open>
  The planning board: mounting runs the effect, typing sets \<^verbatim>\<open>materialCode\<close>,
  submitting the form runs \<^verbatim>\<open>handleSubmit\<close>, and a settled fetch resumes its
  \<^verbatim>\<open>loadBoard\<close>. A response for a request that is not pending cannot arrive.
\<close>

fun board_step :: "'b option event \<Rightarrow> 'b board_state sys \<Rightarrow> 'b board_state sys" where
  "board_step Mount s = dispatch (board_mount (ui s)) s"
| "board_step (Change v) s = s\<lparr>ui := (ui s)\<lparr>pb_materialCode := v\<rparr>\<rparr>"
| "board_step Submit s = dispatch (handleSubmit (ui s)) s"
| "board_step (Settle rid outcome) s =
     (case map_of (pending s) rid of
        None \<Rightarrow> s
      | Some code \<Rightarrow>
          s\<lparr>ui := loadBoard_settle outcome (ui s), pending := forget rid (pending s)\<rparr>)"

definition board_run :: "'b option event list \<Rightarrow> 'b board_state sys \<Rightarrow> 'b board_state sys" where
  "board_run evs s = foldl (\<lambda>s ev. board_step ev s) s evs"

text \<open>
  The pegging panel, in either version: nothing runs on mount, typing sets
  \<^verbatim>\<open>materialInput\<close>, and a click on the button runs \<^verbatim>\<open>handleLoadPegging\<close> unless the
  button is disabled, which it is while \<^verbatim>\<open>loading\<close> is true
  (\<^verbatim>\<open>disabled={loading}\<close>). \<open>Submit\<close> is the click.
\<close>

datatype pegging_version = WithoutDemo | WithDemo

fun pegging_settle ::
  "pegging_version \<Rightarrow> js_string \<Rightarrow> pegging_payload option fetch_outcome \<Rightarrow>
   pegging_state \<Rightarrow> pegging_state" where
  "pegging_settle WithoutDemo code outcome st = handleLoadPegging_settle outcome st"
| "pegging_settle WithDemo code outcome st = handleLoadPeggingDemo_settle code outcome st"

fun pegging_step ::
  "pegging_version \<Rightarrow> pegging_payload option event \<Rightarrow> pegging_state sys \<Rightarrow> pegging_state sys" where
  "pegging_step v Mount s = s"
| "pegging_step v (Change c) s = s\<lparr>ui := (ui s)\<lparr>pg_materialInput := c\<rparr>\<rparr>"
| "pegging_step v Submit s =
     (if pv_button_disabled (pegging_render (ui s)) then s
      else dispatch (handleLoadPegging_start (ui s)) s)"
| "pegging_step v (Settle rid outcome) s =
     (case map_of (pending s) rid of
        None \<Rightarrow> s
      | Some code \<Rightarrow>
          s\<lparr>ui := pegging_settle v code outcome (ui s), pending := forget rid (pending s)\<rparr>)"

definition pegging_run ::
  "pegging_version \<Rightarrow> pegging_payload option event list \<Rightarrow> pegging_state sys \<Rightarrow>
   pegging_state sys" where
  "pegging_run v evs s = foldl (\<lambda>s ev. pegging_step v ev s) s evs"

section \<open>Capacity panel\<close>

text \<open>
  The JSON object of \<^verbatim>\<open>/dashboard/capacity/ia\<close>. \<open>cd_insights\<close> is \<open>None\<close> when the
  field \<^verbatim>\<open>insights\<close> is missing or not an array; an element of the array is \<open>None\<close>
  when it is \<^verbatim>\<open>null\<close>, which the comparator allows for (\<^verbatim>\<open>a?.utilizacao_pct\<close>).
\<close>

record resource_insight =
  recurso :: "js_string option"
  utilizacao_pct :: "real option"
  categoria :: "js_string option"
  planta :: "js_string option"
  recomendacao_curta :: "js_string option"

record capacity_data =
  total_recursos :: "real option"
  utilizacao_media :: "real option"
  recursos_acima_100 :: "real option"
  recursos_abaixo_90 :: "real option"
  recursos_90_100 :: "real option"
  cd_insights :: "resource_insight option list option"
  recomendacoes_gerais :: "js_string list option"

record capacity_state =
  cap_data :: "capacity_data option"
  cap_loading :: bool
  cap_error :: js_string

definition capacity_initial :: capacity_state where
  "capacity_initial = \<lparr> cap_data = None, cap_loading = True, cap_error = [] \<rparr>"

definition MSG_CAPACITY_FAILED :: js_string where
  "MSG_CAPACITY_FAILED =
     js ''N'' @ [227] @ js ''o foi poss'' @ [237] @
     js ''vel carregar os dados de capacidade da IA.''"

text \<open>
  \<^verbatim>\<open>
  const fetchCapacity = async () => {
    try {
      setLoading(true);
      setError("");
      const resp = await fetch(`${API_BASE}/dashboard/capacity/ia`);
      if (!resp.ok) { throw new Error(`Erro ao buscar capacidade (status ${resp.status})`); }
      const json = await resp.json();
      setData(json || null);
    } catch (err) {
      console.error("Erro ao carregar Capacity IA:", err);
      setError("Nao foi possivel carregar os dados de capacidade da IA.");
      setData(null);
    } finally {
      setLoading(false);
    }
  };
  \<close>
  The function runs once, on mount. A falsy body is \<open>None\<close>, which \<^verbatim>\<open>json || null\<close>
  stores as \<^verbatim>\<open>null\<close>.
\<close>

definition fetchCapacity_start :: "capacity_state \<Rightarrow> capacity_state" where
  "fetchCapacity_start st = st\<lparr>cap_loading := True, cap_error := []\<rparr>"

definition capacity_status_error :: "nat \<Rightarrow> js_string" where
  "capacity_status_error status =
     js ''Erro ao buscar capacidade (status '' @ show_nat status @ js '')''"

fun fetchCapacity_try ::
  "capacity_data option fetch_outcome \<Rightarrow> capacity_state \<Rightarrow> js_string + capacity_state" where
  "fetchCapacity_try (FetchRejects e) st = Inl e"
| "fetchCapacity_try (FetchResolves status b) st =
     (if \<not> resp_ok status then Inl (capacity_status_error status)
      else case b of
        JsonRejects e \<Rightarrow> Inl e
      | JsonResolves json \<Rightarrow> Inr (st\<lparr>cap_data := json\<rparr>))"

definition fetchCapacity_catch :: "js_string \<Rightarrow> capacity_state \<Rightarrow> capacity_state" where
  "fetchCapacity_catch err st = st\<lparr>cap_error := MSG_CAPACITY_FAILED, cap_data := None\<rparr>"

definition fetchCapacity_finally :: "capacity_state \<Rightarrow> capacity_state" where
  "fetchCapacity_finally st = st\<lparr>cap_loading := False\<rparr>"

definition fetchCapacity_settle ::
  "capacity_data option fetch_outcome \<Rightarrow> capacity_state \<Rightarrow> capacity_state" where
  "fetchCapacity_settle outcome st =
     fetchCapacity_finally
       (case fetchCapacity_try outcome st of
          Inl err \<Rightarrow> fetchCapacity_catch err st
        | Inr st' \<Rightarrow> st')"

text \<open>
  \<^verbatim>\<open>Array.prototype.sort(comparefn)\<close> sorts the array in place and is stable: \<open>a\<close>
  comes before \<open>b\<close> when \<^verbatim>\<open>comparefn(a, b) < 0\<close>, and elements that compare equal keep
  their order. It is written here as an insertion sort, which is the result of any
  stable sort for a comparator that is a consistent ordering.
\<close>

fun insert_sorted :: "('a \<Rightarrow> 'a \<Rightarrow> real) \<Rightarrow> 'a \<Rightarrow> 'a list \<Rightarrow> 'a list" where
  "insert_sorted cmp x [] = [x]"
| "insert_sorted cmp x (y # ys) =
     (if cmp x y \<le> 0 then x # y # ys else y # insert_sorted cmp x ys)"

definition js_sort :: "('a \<Rightarrow> 'a \<Rightarrow> real) \<Rightarrow> 'a list \<Rightarrow> 'a list" where
  "js_sort cmp xs = foldr (insert_sorted cmp) xs []"

text \<open>
  \<^verbatim>\<open>
  const { ..., insights = [], ... } = data;
  const safeInsights = Array.isArray(insights) ? insights : [];
  const sortedResources = [...safeInsights].sort(
    (a, b) => (b?.utilizacao_pct ?? 0) - (a?.utilizacao_pct ?? 0)
  );
  const chartData = sortedResources.map((r) => ({
    recurso: r.recurso,
    utilizacao: r.utilizacao_pct ?? 0,
  }));
  \<close>
  Reading \<^verbatim>\<open>r.recurso\<close> of a \<^verbatim>\<open>null\<close> element throws a TypeError while rendering.
\<close>

definition utilizacao_or_0 :: "resource_insight option \<Rightarrow> real" where
  "utilizacao_or_0 a =
     (case a of
        None \<Rightarrow> 0
      | Some r \<Rightarrow> (case utilizacao_pct r of None \<Rightarrow> 0 | Some u \<Rightarrow> u))"

definition by_utilizacao :: "resource_insight option \<Rightarrow> resource_insight option \<Rightarrow> real" where
  "by_utilizacao a b = utilizacao_or_0 b - utilizacao_or_0 a"

definition safeInsights :: "capacity_data \<Rightarrow> resource_insight option list" where
  "safeInsights d = (case cd_insights d of None \<Rightarrow> [] | Some xs \<Rightarrow> xs)"

definition sortedResources :: "capacity_data \<Rightarrow> resource_insight option list" where
  "sortedResources d = js_sort by_utilizacao (safeInsights d)"

record chart_row =
  row_recurso :: "js_string option"
  row_utilizacao :: real

datatype render_error = TypeError

fun chartData :: "resource_insight option list \<Rightarrow> render_error + chart_row list" where
  "chartData [] = Inr []"
| "chartData (None # rs) = Inl TypeError"
| "chartData (Some r # rs) =
     (case chartData rs of
        Inl e \<Rightarrow> Inl e
      | Inr rows \<Rightarrow>
          Inr (\<lparr> row_recurso = recurso r, row_utilizacao = utilizacao_or_0 (Some r) \<rparr> # rows))"

text \<open>
  What the component renders:
  \<^verbatim>\<open>
  if (loading) { return ( ...status-box "Carregando dados de capacidade..." ); }
  if (error) { return ( ...status-box error {error} ); }
  if (!data) { return ( ...status-box "Nenhuma informacao de capacidade foi retornada pelo backend." ); }
  ...
  {chartData.length === 0 ? (<div className="empty-msg">Nenhum recurso foi retornado ...</div>)
                          : ( ...bar chart of chartData... )}
  ...
  {sortedResources.length === 0 ? (<div className="status-box">Nenhum recurso detalhado ...</div>)
                                : ( ...one card per element of sortedResources... )}
  \<close>
  The panel is given by the rows of the chart and the resources of the cards, in the
  order shown; an empty list stands for the message shown in its place.
\<close>

datatype capacity_view =
    CapLoading
  | CapErrorBanner js_string
  | CapNoData
  | CapPanel "chart_row list" "resource_insight option list"
  | CapThrows render_error

definition capacity_render :: "capacity_state \<Rightarrow> capacity_view" where
  "capacity_render st =
     (if cap_loading st then CapLoading
      else if cap_error st \<noteq> [] then CapErrorBanner (cap_error st)
      else case cap_data st of
        None \<Rightarrow> CapNoData
      | Some d \<Rightarrow>
          (case chartData (sortedResources d) of
             Inl e \<Rightarrow> CapThrows e
           | Inr rows \<Rightarrow> CapPanel rows (sortedResources d)))"

text \<open>
  Arrays are objects on the heap: the spread \<^verbatim>\<open>[...safeInsights]\<close> allocates a new
  array with the same elements and \<^verbatim>\<open>sort\<close> writes into the array it is called on.
  The two lines that compute \<^verbatim>\<open>sortedResources\<close> are given once more over a store of
  arrays, where \<open>insights\<close> is the reference held by the payload (\<open>None\<close> when the field
  is not an array).
\<close>

text \<open>The store is the list of the arrays allocated so far; a reference is an index.\<close>

type_synonym 'a store = "'a list list"

definition alloc :: "'a list \<Rightarrow> 'a store \<Rightarrow> nat \<times> 'a store" where
  "alloc xs h = (length h, h @ [xs])"

definition elements :: "'a store \<Rightarrow> nat \<Rightarrow> 'a list" where
  "elements h r = (if r < length h then h ! r else [])"

definition sort_in_place :: "('a \<Rightarrow> 'a \<Rightarrow> real) \<Rightarrow> nat \<Rightarrow> 'a store \<Rightarrow> 'a store" where
  "sort_in_place cmp r h = h[r := js_sort cmp (elements h r)]"

definition sortedResources_store ::
  "nat option \<Rightarrow> resource_insight option store \<Rightarrow> nat \<times> resource_insight option store" where
  "sortedResources_store insights h =
     (let (safe, h1) = (case insights of None \<Rightarrow> alloc [] h | Some r \<Rightarrow> (r, h));
          (copy, h2) = alloc (elements h1 safe) h1
      in (copy, sort_in_place by_utilizacao copy h2))"

section \<open>Insights panel\<close>

text \<open>
  The component state of \<^verbatim>\<open>IaInsightsPanel\<close>: \<^verbatim>\<open>insights\<close>, \<^verbatim>\<open>loading\<close> and \<^verbatim>\<open>error\<close>
  (\<^verbatim>\<open>null\<close> or a message). \<open>filterTipo\<close> is the property given by the parent, \<open>None\<close>
  when it is missing or empty.
\<close>

record insight =
  in_tipo :: "js_string option"
  in_severidade :: "js_string option"
  in_titulo :: "js_string option"
  in_descricao :: "js_string option"
  in_sugestao :: "js_string option"

record insights_payload =
  ip_insights :: "insight list option"

record insights_state =
  ins_insights :: "insight list"
  ins_loading :: bool
  ins_error :: "js_string option"

definition insights_initial :: insights_state where
  "insights_initial = \<lparr> ins_insights = [], ins_loading = True, ins_error = None \<rparr>"

definition MSG_INSIGHTS_UNEXPECTED :: js_string where
  "MSG_INSIGHTS_UNEXPECTED = js ''Erro inesperado ao carregar insights.''"

text \<open>
  The message of the TypeError thrown by \<^verbatim>\<open>data.insights\<close> when the body is
  \<^verbatim>\<open>null\<close>; its wording is the engine's.
\<close>

definition MSG_NULL_READ :: js_string where
  "MSG_NULL_READ = js ''Cannot read properties of null''"

text \<open>
  \<^verbatim>\<open>
  const fetchInsights = async () => {
    try {
      setLoading(true);
      setError(null);
      const res = await fetch("http://127.0.0.1:8000/dashboard/insights");
      if (!res.ok) { throw new Error(`Erro ao buscar insights: ${res.status}`); }
      const data = await res.json();
      let items = data.insights || [];
      if (filterTipo) { items = items.filter((i) => i.tipo === filterTipo); }
      setInsights(items);
    } catch (err) {
      console.error(err);
      setError(err.message || "Erro inesperado ao carregar insights.");
    } finally {
      setLoading(false);
    }
  };
  \<close>
\<close>

definition fetchInsights_start :: "insights_state \<Rightarrow> insights_state" where
  "fetchInsights_start st = st\<lparr>ins_loading := True, ins_error := None\<rparr>"

definition insights_status_error :: "nat \<Rightarrow> js_string" where
  "insights_status_error status = js ''Erro ao buscar insights: '' @ show_nat status"

fun fetchInsights_try ::
  "js_string option \<Rightarrow> insights_payload option fetch_outcome \<Rightarrow> insights_state \<Rightarrow>
   js_string + insights_state" where
  "fetchInsights_try filterTipo (FetchRejects e) st = Inl e"
| "fetchInsights_try filterTipo (FetchResolves status b) st =
     (if \<not> resp_ok status then Inl (insights_status_error status)
      else case b of
        JsonRejects e \<Rightarrow> Inl e
      | JsonResolves None \<Rightarrow> Inl MSG_NULL_READ
      | JsonResolves (Some d) \<Rightarrow>
          (let items = (case ip_insights d of None \<Rightarrow> [] | Some xs \<Rightarrow> xs);
               items = (case filterTipo of
                          None \<Rightarrow> items
                        | Some t \<Rightarrow> filter (\<lambda>i. in_tipo i = Some t) items)
           in Inr (st\<lparr>ins_insights := items\<rparr>)))"

definition fetchInsights_catch :: "js_string \<Rightarrow> insights_state \<Rightarrow> insights_state" where
  "fetchInsights_catch err st =
     st\<lparr>ins_error := Some (if err \<noteq> [] then err else MSG_INSIGHTS_UNEXPECTED)\<rparr>"

definition fetchInsights_finally :: "insights_state \<Rightarrow> insights_state" where
  "fetchInsights_finally st = st\<lparr>ins_loading := False\<rparr>"

definition fetchInsights_settle ::
  "js_string option \<Rightarrow> insights_payload option fetch_outcome \<Rightarrow> insights_state \<Rightarrow>
   insights_state" where
  "fetchInsights_settle filterTipo outcome st =
     fetchInsights_finally
       (case fetchInsights_try filterTipo outcome st of
          Inl err \<Rightarrow> fetchInsights_catch err st
        | Inr st' \<Rightarrow> st')"

section \<open>Overview\<close>

text \<open>
  The state of \<^verbatim>\<open>App\<close> that its fetch touches: \<^verbatim>\<open>data\<close>, \<^verbatim>\<open>loading\<close> and \<^verbatim>\<open>error\<close>.
  The summary payload is only stored and shown.
  \<^verbatim>\<open>
  const fetchData = async () => {
    try {
      const resp = await fetch(`${API_BASE}/dashboard/summary`);
      if (!resp.ok) { throw new Error(`Erro ao buscar dados (${resp.status})`); }
      const json = await resp.json();
      setData(json);
      setError("");
    } catch (err) {
      console.error(err);
      setError("Nao foi possivel carregar os dados do backend.");
    } finally {
      setLoading(false);
    }
  };
  \<close>
\<close>

record 'd app_state =
  app_data :: "'d option"
  app_loading :: bool
  app_error :: js_string

definition app_initial :: "'d app_state" where
  "app_initial = \<lparr> app_data = None, app_loading = True, app_error = [] \<rparr>"

definition MSG_APP_FAILED :: js_string where
  "MSG_APP_FAILED =
     js ''N'' @ [227] @ js ''o foi poss'' @ [237] @ js ''vel carregar os dados do backend.''"

definition app_status_error :: "nat \<Rightarrow> js_string" where
  "app_status_error status = js ''Erro ao buscar dados ('' @ show_nat status @ js '')''"

fun fetchData_try :: "'d option fetch_outcome \<Rightarrow> 'd app_state \<Rightarrow> js_string + 'd app_state" where
  "fetchData_try (FetchRejects e) st = Inl e"
| "fetchData_try (FetchResolves status b) st =
     (if \<not> resp_ok status then Inl (app_status_error status)
      else case b of
        JsonRejects e \<Rightarrow> Inl e
      | JsonResolves json \<Rightarrow> Inr (st\<lparr>app_data := json, app_error := []\<rparr>))"

definition fetchData_catch :: "js_string \<Rightarrow> 'd app_state \<Rightarrow> 'd app_state" where
  "fetchData_catch err st = st\<lparr>app_error := MSG_APP_FAILED\<rparr>"

definition fetchData_finally :: "'d app_state \<Rightarrow> 'd app_state" where
  "fetchData_finally st = st\<lparr>app_loading := False\<rparr>"

definition fetchData_settle :: "'d option fetch_outcome \<Rightarrow> 'd app_state \<Rightarrow> 'd app_state" where
  "fetchData_settle outcome st =
     fetchData_finally
       (case fetchData_try outcome st of
          Inl err \<Rightarrow> fetchData_catch err st
        | Inr st' \<Rightarrow> st')"

text \<open>
  The states of the pegging panel in which the loading flag tells whether a request is
  pending: either nothing is pending and the flag is off, or exactly one request is
  pending, it is the last one issued, and the flag is on.
\<close>

definition pegging_inv :: "pegging_state sys \<Rightarrow> bool" where
  "pegging_inv s \<longleftrightarrow>
     (case pending s of
        [] \<Rightarrow> \<not> pg_loading (ui s)
      | [(rid, code)] \<Rightarrow> pg_loading (ui s) \<and> Suc rid = issued s
      | _ \<Rightarrow> False)"

section \<open>Example data\<close>

text \<open>Payloads and event traces used to instantiate the theorems below.\<close>

definition example_resource :: "string \<Rightarrow> real option \<Rightarrow> resource_insight option" where
  "example_resource name u =
     Some \<lparr> recurso = Some (js name), utilizacao_pct = u, categoria = None, planta = None,
            recomendacao_curta = None \<rparr>"

definition example_capacity :: "resource_insight option list \<Rightarrow> capacity_data" where
  "example_capacity rs =
     \<lparr> total_recursos = Some 3, utilizacao_media = Some 66.7, recursos_acima_100 = Some 1,
       recursos_abaixo_90 = Some 2, recursos_90_100 = Some 0, cd_insights = Some rs,
       recomendacoes_gerais = None \<rparr>"

definition example_resources :: "resource_insight option list" where
  "example_resources =
     [example_resource ''R1'' (Some 80), example_resource ''R2'' None,
      example_resource ''R3'' (Some 120)]"

definition example_no_orders :: pegging_payload where
  "example_no_orders = DEMO_PEGGING_4011835\<lparr>ordens := Some []\<rparr>"

definition example_race :: "nat option event list" where
  "example_race =
     [Mount, Change (js ''B7''), Submit, Settle 1 (FetchResolves 200 (JsonResolves (Some 2)))]"

definition example_clicks :: "pegging_payload option event list" where
  "example_clicks = [Submit, Change (js ''B7''), Submit]"

section \<open>Properties of the validator\<close>

lemma matches_Zero_Seq: "matches (Seq Zero r) s = False"
  by (induction s) simp_all

lemma matches_Alt: "matches (Alt r1 r2) s = (matches r1 s \<or> matches r2 s)"
  by (induction s arbitrary: r1 r2) simp_all

lemma matches_One_Star_Class:
  "matches (Seq One (Star (Class rs))) s = (\<forall>c \<in> set s. in_class rs c)"
proof (induction s)
  case Nil
  show ?case by simp
next
  case (Cons c cs)
  show ?case
  proof (cases "in_class rs c")
    case True
    then show ?thesis
      using Cons.IH by (simp add: matches_Alt matches_Zero_Seq)
  next
    case False
    then show ?thesis
      by (simp add: matches_Alt matches_Zero_Seq)
  qed
qed

lemma matches_Plus_Class:
  "matches (Plus (Class rs)) s = (s \<noteq> [] \<and> (\<forall>c \<in> set s. in_class rs c))"
proof (cases s)
  case Nil
  then show ?thesis by (simp add: Plus_def)
next
  case (Cons c cs)
  then show ?thesis
    by (cases "in_class rs c")
      (simp_all add: Plus_def matches_One_Star_Class matches_Zero_Seq)
qed

lemma in_material_class:
  "in_class material_class c = (is_digit c \<or> is_ascii_letter c \<or> is_hyphen c)"
  by (auto simp: material_class_def is_digit_def is_ascii_letter_def is_hyphen_def)

lemma isValidMaterial_chars:
  "isValidMaterial s =
     (trim s \<noteq> [] \<and> (\<forall>c \<in> set (trim s). in_class material_class c))"
  by (simp add: isValidMaterial_def Let_def material_regex_def matches_Plus_Class)

lemma dropWhile_rev_dropWhile:
  "dropWhile P (rev (dropWhile P (rev (dropWhile P s)))) = rev (dropWhile P (rev (dropWhile P s)))"
proof -
  define a where "a = dropWhile P s"
  define b where "b = dropWhile P (rev a)"
  have split: "rev a = takeWhile P (rev a) @ b"
    by (simp add: b_def)
  have "dropWhile P (rev b) = rev b"
  proof (cases "b = []")
    case True
    then show ?thesis by simp
  next
    case False
    have "a = rev b @ rev (takeWhile P (rev a))"
      using split by (metis rev_append rev_rev_ident)
    then have "hd (rev b) = hd a" using False
      by (metis hd_append2 rev_is_Nil_conv)
    moreover have "a \<noteq> []" using False b_def by auto
    then have "\<not> P (hd a)" unfolding a_def by (metis hd_dropWhile)
    ultimately have "\<not> P (hd (rev b))" by simp
    then show ?thesis
      using False by (cases "rev b") auto
  qed
  then show ?thesis by (simp add: a_def b_def)
qed

lemma trim_idem: "trim (trim s) = trim s"
  by (simp add: trim_def dropWhile_rev_dropWhile)

lemma isValidMaterial_trim: "isValidMaterial (trim s) = isValidMaterial s"
  by (simp add: isValidMaterial_def trim_idem)

lemma isValidMaterial_nonempty: "isValidMaterial s \<Longrightarrow> trim s \<noteq> []"
  by (simp add: isValidMaterial_def Let_def split: if_splits)

text \<open>
  The strings used as examples below, evaluated once.
\<close>

lemma trim_examples:
  "trim (js ''abc_123'') = js ''abc_123''"
  "trim (js ''  '') = []"
  "trim (js '' 4011835-AA '') = js ''4011835-AA''"
  "trim (js ''4011835-AA'') = js ''4011835-AA''"
  by (simp_all add: trim_def is_white_space_def js_def)

lemma valid_examples:
  "\<not> isValidMaterial (js ''abc_123'')"
  "isValidMaterial (js '' 4011835-AA '')"
  "isValidMaterial DEFAULT_MATERIAL"
  by (simp_all add: isValidMaterial_chars trim_def is_white_space_def js_def material_class_def
      DEFAULT_MATERIAL_def)

lemma nonempty_examples:
  "js ''abc_123'' \<noteq> []"
  "js ''X1'' \<noteq> []"
  by (simp_all add: js_def)

lemma default_material_evals:
  "trim DEFAULT_MATERIAL = DEFAULT_MATERIAL"
  "DEFAULT_MATERIAL \<noteq> []"
  "trim (js ''B7'') = js ''B7''"
  "js ''B7'' \<noteq> []"
  "isValidMaterial (js ''B7'')"
  by (simp_all add: DEFAULT_MATERIAL_def isValidMaterial_chars trim_def is_white_space_def js_def
      material_class_def)

text \<open>
  C3. For every string \<open>s\<close>, \<open>isValidMaterial s\<close> is true if and only if \<open>s\<close> trimmed of
  surrounding whitespace is non-empty and each of its characters is a digit, an ASCII
  letter or a hyphen. The function is a pure function of its argument.
\<close>

theorem isValidMaterial_iff:
  "isValidMaterial s =
     (trim s \<noteq> [] \<and> (\<forall>c \<in> set (trim s). is_digit c \<or> is_ascii_letter c \<or> is_hyphen c))"
  by (simp add: isValidMaterial_chars in_material_class)

theorem isValidMaterial_iff_witness:
  "isValidMaterial (js '' 4011835-AA '') \<and> \<not> isValidMaterial (js ''abc_123'') \<and>
   \<not> isValidMaterial (js ''  '')"
  using isValidMaterial_iff [of "js '' 4011835-AA ''"]
    isValidMaterial_iff [of "js ''abc_123''"] isValidMaterial_iff [of "js ''  ''"]
  by (simp add: js_def trim_def is_white_space_def is_digit_def is_ascii_letter_def
      is_hyphen_def)

section \<open>Properties of the demo provider\<close>

lemma DEFAULT_MATERIAL_nonempty: "DEFAULT_MATERIAL \<noteq> []"
  by (simp add: DEFAULT_MATERIAL_def js_def)

lemma same_order_fields_update:
  "list_all2 same_order_fields (map (\<lambda>op. op\<lparr>op_material := m\<rparr>) os) os"
  by (induction os) (simp_all add: same_order_fields_def)

lemma buildDemoResult_valid:
  "isValidMaterial s \<Longrightarrow> buildDemoResult (trim s) \<noteq> None"
  by (simp add: buildDemoResult_def Let_def trim_idem isValidMaterial_nonempty)

lemma buildDemoResult_clone:
  assumes "trim x \<noteq> []" and "trim x \<noteq> DEFAULT_MATERIAL"
  shows "\<exists>r. buildDemoResult x = Some r \<and> material r = Some (trim x) \<and>
           (\<forall>op \<in> set (ordens_list r). op_material op = Some (trim x)) \<and>
           same_summary_fields r DEMO_PEGGING_4011835 \<and>
           list_all2 same_order_fields (ordens_list r) DEMO_ordens"
proof -
  define r where "r = DEMO_PEGGING_4011835
     \<lparr> material := Some (trim x),
       ordens := Some (map (\<lambda>op. op\<lparr>op_material := Some (trim x)\<rparr>) DEMO_ordens) \<rparr>"
  have "buildDemoResult x = Some r"
    using assms by (simp add: buildDemoResult_def Let_def r_def)
  moreover have "material r = Some (trim x)"
    by (simp add: r_def)
  moreover have "\<forall>op \<in> set (ordens_list r). op_material op = Some (trim x)"
    by (simp add: r_def)
  moreover have "same_summary_fields r DEMO_PEGGING_4011835"
    by (simp add: r_def same_summary_fields_def)
  moreover have "list_all2 same_order_fields (ordens_list r) DEMO_ordens"
    by (simp add: r_def same_order_fields_update)
  ultimately show ?thesis
    by blast
qed

text \<open>
  C4. \<open>buildDemoResult x\<close> is null when \<open>x\<close> trimmed is empty; it is the seed dataset
  when \<open>x\<close> trimmed is "4011835-AA"; for any other \<open>x\<close> it is a record whose material,
  and the material of each of whose orders, is \<open>x\<close> trimmed, every other field being the
  seed's. The function is only called with \<^verbatim>\<open>materialInput.trim()\<close>, an identifier
  that is its own trimmed form, and for such an \<open>x\<close> the material fields are \<open>x\<close>
  itself. The result depends on the trimmed identifier only, so two calls with the same
  \<open>x\<close> give equal results.
\<close>

theorem buildDemoResult_cases:
  "(trim x = [] \<longrightarrow> buildDemoResult x = None) \<and>
   (trim x = DEFAULT_MATERIAL \<longrightarrow> buildDemoResult x = Some DEMO_PEGGING_4011835) \<and>
   (trim x \<noteq> [] \<and> trim x \<noteq> DEFAULT_MATERIAL \<longrightarrow>
      (\<exists>r. buildDemoResult x = Some r \<and> material r = Some (trim x) \<and>
           (\<forall>op \<in> set (ordens_list r). op_material op = Some (trim x)) \<and>
           same_summary_fields r DEMO_PEGGING_4011835 \<and>
           list_all2 same_order_fields (ordens_list r) DEMO_ordens)) \<and>
   (trim y = trim x \<longrightarrow> buildDemoResult y = buildDemoResult x) \<and>
   (x = trim s \<and> x \<noteq> [] \<and> x \<noteq> DEFAULT_MATERIAL \<longrightarrow>
      (\<exists>r. buildDemoResult x = Some r \<and> material r = Some x \<and>
           (\<forall>op \<in> set (ordens_list r). op_material op = Some x) \<and>
           same_summary_fields r DEMO_PEGGING_4011835 \<and>
           list_all2 same_order_fields (ordens_list r) DEMO_ordens))"
proof (intro conjI impI)
  assume "trim x = []"
  then show "buildDemoResult x = None"
    by (simp add: buildDemoResult_def)
next
  assume "trim x = DEFAULT_MATERIAL"
  then show "buildDemoResult x = Some DEMO_PEGGING_4011835"
    by (simp add: buildDemoResult_def DEFAULT_MATERIAL_nonempty)
next
  assume "trim x \<noteq> [] \<and> trim x \<noteq> DEFAULT_MATERIAL"
  then show "\<exists>r. buildDemoResult x = Some r \<and> material r = Some (trim x) \<and>
           (\<forall>op \<in> set (ordens_list r). op_material op = Some (trim x)) \<and>
           same_summary_fields r DEMO_PEGGING_4011835 \<and>
           list_all2 same_order_fields (ordens_list r) DEMO_ordens"
    by (intro buildDemoResult_clone) simp_all
next
  assume "trim y = trim x"
  then show "buildDemoResult y = buildDemoResult x"
    by (simp add: buildDemoResult_def)
next
  assume a: "x = trim s \<and> x \<noteq> [] \<and> x \<noteq> DEFAULT_MATERIAL"
  then have fixed: "trim x = x"
    by (simp add: trim_idem)
  from a have "x \<noteq> []" and "x \<noteq> DEFAULT_MATERIAL"
    by blast+
  then have "trim x \<noteq> []" and "trim x \<noteq> DEFAULT_MATERIAL"
    by (simp_all add: fixed)
  then have "\<exists>r. buildDemoResult x = Some r \<and> material r = Some (trim x) \<and>
           (\<forall>op \<in> set (ordens_list r). op_material op = Some (trim x)) \<and>
           same_summary_fields r DEMO_PEGGING_4011835 \<and>
           list_all2 same_order_fields (ordens_list r) DEMO_ordens"
    by (rule buildDemoResult_clone)
  then show "\<exists>r. buildDemoResult x = Some r \<and> material r = Some x \<and>
           (\<forall>op \<in> set (ordens_list r). op_material op = Some x) \<and>
           same_summary_fields r DEMO_PEGGING_4011835 \<and>
           list_all2 same_order_fields (ordens_list r) DEMO_ordens"
    by (simp only: fixed)
qed

theorem buildDemoResult_cases_witness:
  "buildDemoResult (js ''   '') = None \<and>
   buildDemoResult (js '' 4011835-AA'') = Some DEMO_PEGGING_4011835 \<and>
   (\<exists>r. buildDemoResult (js ''7000-B'') = Some r \<and> material r = Some (js ''7000-B'') \<and>
        (\<forall>op \<in> set (ordens_list r). op_material op = Some (js ''7000-B'')) \<and>
        same_summary_fields r DEMO_PEGGING_4011835 \<and>
        list_all2 same_order_fields (ordens_list r) DEMO_ordens) \<and>
   buildDemoResult (js ''7000-B  '') = buildDemoResult (js ''7000-B'')"
proof -
  have t1: "trim (js ''   '') = []"
    by (simp add: trim_def is_white_space_def js_def)
  have t2: "trim (js '' 4011835-AA'') = DEFAULT_MATERIAL"
    by (simp add: trim_def is_white_space_def js_def DEFAULT_MATERIAL_def)
  have t3: "trim (js ''7000-B'') = js ''7000-B''"
    by (simp add: trim_def is_white_space_def js_def)
  have t4: "trim (js ''7000-B  '') = trim (js ''7000-B'')"
    by (simp add: trim_def is_white_space_def js_def)
  have t5: "js ''7000-B'' \<noteq> [] \<and> js ''7000-B'' \<noteq> DEFAULT_MATERIAL"
    by (simp add: js_def DEFAULT_MATERIAL_def)
  have t6: "js ''7000-B'' = trim (js '' 7000-B '')"
    by (simp add: trim_def is_white_space_def js_def)
  show ?thesis
    using buildDemoResult_cases [of "js ''   ''" "js ''   ''" "js ''   ''"]
      buildDemoResult_cases [of "js '' 4011835-AA''" "js '' 4011835-AA''" "js '' 4011835-AA''"]
      buildDemoResult_cases [of "js ''7000-B''" "js ''7000-B  ''" "js '' 7000-B ''"]
      t1 t2 t3 t4 t5 t6
    by simp
qed

section \<open>What a trigger does\<close>

lemma MSG_INVALID_MATERIAL_nonempty: "MSG_INVALID_MATERIAL \<noteq> []"
  by (simp add: MSG_INVALID_MATERIAL_def js_def)

lemma MSG_PEGGING_FAILED_nonempty: "MSG_PEGGING_FAILED \<noteq> []"
  by (simp add: MSG_PEGGING_FAILED_def js_def)

lemma MSG_BOARD_FAILED_nonempty: "MSG_BOARD_FAILED \<noteq> []"
  by (simp add: MSG_BOARD_FAILED_def js_def)

lemma MSG_CAPACITY_FAILED_nonempty: "MSG_CAPACITY_FAILED \<noteq> []"
  by (simp add: MSG_CAPACITY_FAILED_def js_def)

lemma MSG_APP_FAILED_nonempty: "MSG_APP_FAILED \<noteq> []"
  by (simp add: MSG_APP_FAILED_def js_def)

lemma MSG_INSIGHTS_UNEXPECTED_nonempty: "MSG_INSIGHTS_UNEXPECTED \<noteq> []"
  by (simp add: MSG_INSIGHTS_UNEXPECTED_def js_def)

text \<open>
  C10. In the planning board, submitting a material code that is empty or holds only
  whitespace does nothing: \<open>handleSubmit\<close> returns the state as it was (loading flag,
  error message and board included) and issues no request, so the panel and its pending
  requests are unchanged.
\<close>

theorem handleSubmit_blank_noop:
  "trim (pb_materialCode (ui s)) = [] \<Longrightarrow>
     handleSubmit (ui s) = (ui s, None) \<and> board_step Submit s = s"
  by (simp add: handleSubmit_def loadBoard_start_def dispatch_def)

theorem handleSubmit_blank_noop_witness:
  "handleSubmit \<lparr> pb_materialCode = js ''  '', pb_board = Some (7::nat), pb_loadingBoard = False,
       pb_error = js ''e'' \<rparr> =
     (\<lparr> pb_materialCode = js ''  '', pb_board = Some 7, pb_loadingBoard = False,
        pb_error = js ''e'' \<rparr>, None)"
proof -
  have "trim (js ''  '') = []"
    by (simp add: trim_def is_white_space_def js_def)
  then show ?thesis
    using handleSubmit_blank_noop [of "sys_initial \<lparr> pb_materialCode = js ''  '',
      pb_board = Some (7::nat), pb_loadingBoard = False, pb_error = js ''e'' \<rparr>"]
    by (simp add: sys_initial_def)
qed

text \<open>
  C5, as the claim states it, fails for the planning board, which has no validator:
  a code that the validator rejects is fetched, and no error is shown.
\<close>

theorem board_no_validator_counterexample:
  "\<not> isValidMaterial (js ''abc_123'') \<and>
   handleSubmit ((board_initial :: nat board_state)\<lparr>pb_materialCode := js ''abc_123''\<rparr>) =
     (\<lparr> pb_materialCode = js ''abc_123'', pb_board = None, pb_loadingBoard = True,
        pb_error = [] \<rparr>, Some (js ''abc_123''))"
  by (simp add: isValidMaterial_chars handleSubmit_def loadBoard_start_def board_initial_def
      trim_def is_white_space_def js_def material_class_def)

text \<open>
  C5, amended. In the pegging panel the validator runs on every click before any fetch:
  when it fails the panel goes to the error state with the invalid-code message, the
  result cleared, and no request is issued; when it passes a request for the trimmed
  code is issued. The planning board runs no validator, only a test for the empty
  string: a submit whose trimmed code is empty changes nothing and issues no request,
  and any other code, valid or not, is requested after the loading flag is set and the
  error message cleared.
\<close>

theorem validation_before_fetch:
  "(\<not> isValidMaterial (pg_materialInput st) \<longrightarrow>
      handleLoadPegging_start st =
        (st\<lparr>pg_error := MSG_INVALID_MATERIAL, pg_result := None\<rparr>, None) \<and>
      MSG_INVALID_MATERIAL \<noteq> []) \<and>
   (isValidMaterial (pg_materialInput st) \<longrightarrow>
      snd (handleLoadPegging_start st) = Some (trim (pg_materialInput st))) \<and>
   (trim (pb_materialCode bs) = [] \<longrightarrow> handleSubmit bs = (bs, None)) \<and>
   (trim (pb_materialCode bs) \<noteq> [] \<longrightarrow>
      handleSubmit bs =
        (bs\<lparr>pb_loadingBoard := True, pb_error := []\<rparr>, Some (trim (pb_materialCode bs))))"
proof -
  have nonempty: "pb_materialCode bs \<noteq> []" if "trim (pb_materialCode bs) \<noteq> []"
    using that by (auto simp: trim_def)
  show ?thesis
    using nonempty
    by (simp add: handleLoadPegging_start_def Let_def isValidMaterial_trim
        MSG_INVALID_MATERIAL_nonempty handleSubmit_def loadBoard_start_def)
qed

theorem validation_before_fetch_witness:
  "handleLoadPegging_start (pegging_initial\<lparr>pg_materialInput := js ''abc_123''\<rparr>) =
     (pegging_initial\<lparr>pg_materialInput := js ''abc_123'', pg_error := MSG_INVALID_MATERIAL,
        pg_result := None\<rparr>, None) \<and>
   snd (handleLoadPegging_start (pegging_initial\<lparr>pg_materialInput := js '' 4011835-AA ''\<rparr>)) =
     Some (js ''4011835-AA'') \<and>
   handleSubmit ((board_initial :: nat board_state)\<lparr>pb_materialCode := js ''  ''\<rparr>) =
     (board_initial\<lparr>pb_materialCode := js ''  ''\<rparr>, None) \<and>
   handleSubmit ((board_initial :: nat board_state)\<lparr>pb_materialCode := js ''abc_123''\<rparr>) =
     (board_initial\<lparr>pb_materialCode := js ''abc_123'', pb_loadingBoard := True, pb_error := []\<rparr>,
      Some (js ''abc_123''))"
  using validation_before_fetch [of "pegging_initial\<lparr>pg_materialInput := js ''abc_123''\<rparr>"
      "(board_initial :: nat board_state)\<lparr>pb_materialCode := js ''  ''\<rparr>"]
    validation_before_fetch [of "pegging_initial\<lparr>pg_materialInput := js '' 4011835-AA ''\<rparr>"
      "(board_initial :: nat board_state)\<lparr>pb_materialCode := js ''abc_123''\<rparr>"]
    trim_examples valid_examples nonempty_examples
  by simp

text \<open>
  C6, as the claim states it, fails for the planning board: a new trigger sets the
  loading flag and clears the error message, but the board loaded before stays in the
  state.
\<close>

theorem board_keeps_payload_counterexample:
  "handleSubmit \<lparr> pb_materialCode = js ''X1'', pb_board = Some (1::nat),
       pb_loadingBoard = False, pb_error = [] \<rparr> =
     (\<lparr> pb_materialCode = js ''X1'', pb_board = Some 1, pb_loadingBoard = True,
        pb_error = [] \<rparr>, Some (js ''X1''))"
  by (simp add: handleSubmit_def loadBoard_start_def trim_def is_white_space_def js_def)

text \<open>
  C6, amended. A trigger that passes the panel's check sets the loading flag and clears
  the error message before the fetch begins. The pegging panel also clears the previous
  result, and on a failed validation it goes to the error state with the result cleared
  and the loading flag untouched. The planning board keeps the previous board in its
  state and does not render it while the loading flag is set; the capacity and insights
  panels keep their previous payload as well.
\<close>

theorem trigger_resets:
  "(isValidMaterial (pg_materialInput st) \<longrightarrow>
      handleLoadPegging_start st =
        (st\<lparr>pg_loading := True, pg_error := [], pg_result := None\<rparr>,
         Some (trim (pg_materialInput st)))) \<and>
   (\<not> isValidMaterial (pg_materialInput st) \<longrightarrow>
      handleLoadPegging_start st =
        (st\<lparr>pg_error := MSG_INVALID_MATERIAL, pg_result := None\<rparr>, None)) \<and>
   (trim (pb_materialCode bs) \<noteq> [] \<longrightarrow>
      fst (handleSubmit bs) = bs\<lparr>pb_loadingBoard := True, pb_error := []\<rparr> \<and>
      pb_board (fst (handleSubmit bs)) = pb_board bs \<and>
      board_render (fst (handleSubmit bs)) =
        \<lparr> bv_loading_box = True, bv_error_banner = None, bv_board = None \<rparr>) \<and>
   (pb_materialCode bs \<noteq> [] \<longrightarrow>
      fst (board_mount bs) = bs\<lparr>pb_loadingBoard := True, pb_error := []\<rparr>) \<and>
   fetchCapacity_start cs = cs\<lparr>cap_loading := True, cap_error := []\<rparr> \<and>
   fetchInsights_start is = is\<lparr>ins_loading := True, ins_error := None\<rparr>"
proof -
  have nonempty: "pb_materialCode bs \<noteq> []" if "trim (pb_materialCode bs) \<noteq> []"
    using that by (auto simp: trim_def)
  show ?thesis
    using nonempty
    by (simp add: handleLoadPegging_start_def Let_def isValidMaterial_trim
        handleSubmit_def loadBoard_start_def board_mount_def board_render_def
        fetchCapacity_start_def fetchInsights_start_def)
qed

theorem trigger_resets_witness:
  "handleLoadPegging_start \<lparr> pg_materialInput = js '' 4011835-AA '', pg_loading = False,
       pg_error = js ''old'', pg_result = Some DEMO_PEGGING_4011835 \<rparr> =
     (\<lparr> pg_materialInput = js '' 4011835-AA '', pg_loading = True, pg_error = [],
        pg_result = None \<rparr>, Some (js ''4011835-AA'')) \<and>
   handleLoadPegging_start \<lparr> pg_materialInput = js ''abc_123'', pg_loading = False,
       pg_error = [], pg_result = Some DEMO_PEGGING_4011835 \<rparr> =
     (\<lparr> pg_materialInput = js ''abc_123'', pg_loading = False,
        pg_error = MSG_INVALID_MATERIAL, pg_result = None \<rparr>, None) \<and>
   fst (handleSubmit \<lparr> pb_materialCode = js ''X1'', pb_board = Some (1::nat),
       pb_loadingBoard = False, pb_error = js ''old'' \<rparr>) =
     \<lparr> pb_materialCode = js ''X1'', pb_board = Some 1, pb_loadingBoard = True, pb_error = [] \<rparr>"
  using trigger_resets [of "\<lparr> pg_materialInput = js '' 4011835-AA '', pg_loading = False,
        pg_error = js ''old'', pg_result = Some DEMO_PEGGING_4011835 \<rparr>"
      "\<lparr> pb_materialCode = js ''X1'', pb_board = Some (1::nat), pb_loadingBoard = False,
        pb_error = js ''old'' \<rparr>"]
    trigger_resets [of "\<lparr> pg_materialInput = js ''abc_123'', pg_loading = False,
        pg_error = [], pg_result = Some DEMO_PEGGING_4011835 \<rparr>"
      "\<lparr> pb_materialCode = js ''X1'', pb_board = Some (1::nat), pb_loadingBoard = False,
        pb_error = js ''old'' \<rparr>"]
    trim_examples valid_examples nonempty_examples
  by (simp add: trim_def is_white_space_def js_def)

section \<open>What a settled fetch does\<close>

lemma handleLoadPegging_settle_failed:
  "fetch_failed outcome \<Longrightarrow>
     handleLoadPegging_settle outcome st = st\<lparr>pg_error := MSG_PEGGING_FAILED, pg_loading := False\<rparr>"
  by (cases outcome rule: fetch_failed.cases)
    (simp_all add: handleLoadPegging_settle_def handleLoadPegging_catch_def
      handleLoadPegging_finally_def)

lemma handleLoadPeggingDemo_settle_failed:
  assumes "fetch_failed outcome" and "buildDemoResult code = Some demo" and "pg_error st = []"
  shows "handleLoadPeggingDemo_settle code outcome st =
           st\<lparr>pg_result := Some demo, pg_loading := False\<rparr>"
proof -
  have "st\<lparr>pg_result := Some demo, pg_error := []\<rparr> = st\<lparr>pg_result := Some demo\<rparr>"
    using assms(3) by (cases st) simp
  then show ?thesis
    using assms(1,2)
    by (cases outcome rule: fetch_failed.cases)
      (simp_all add: handleLoadPeggingDemo_settle_def handleLoadPeggingDemo_catch_def
        handleLoadPegging_finally_def)
qed

lemma loadBoard_settle_failed:
  "fetch_failed outcome \<Longrightarrow>
     loadBoard_settle outcome st =
       st\<lparr>pb_error := MSG_BOARD_FAILED, pb_board := None, pb_loadingBoard := False\<rparr>"
  by (cases outcome rule: fetch_failed.cases)
    (simp_all add: loadBoard_settle_def loadBoard_catch_def loadBoard_finally_def)

lemma fetchCapacity_settle_failed:
  "fetch_failed outcome \<Longrightarrow>
     fetchCapacity_settle outcome st =
       st\<lparr>cap_error := MSG_CAPACITY_FAILED, cap_data := None, cap_loading := False\<rparr>"
  by (cases outcome rule: fetch_failed.cases)
    (simp_all add: fetchCapacity_settle_def fetchCapacity_catch_def fetchCapacity_finally_def)

lemma fetchData_settle_failed:
  "fetch_failed outcome \<Longrightarrow>
     fetchData_settle outcome st = st\<lparr>app_error := MSG_APP_FAILED, app_loading := False\<rparr>"
  by (cases outcome rule: fetch_failed.cases)
    (simp_all add: fetchData_settle_def fetchData_catch_def fetchData_finally_def)

lemma fetchInsights_settle_failed:
  assumes "fetch_failed outcome"
  shows "\<exists>msg. msg \<noteq> [] \<and>
       fetchInsights_settle filterTipo outcome st = st\<lparr>ins_error := Some msg, ins_loading := False\<rparr>"
proof -
  have "\<exists>err. fetchInsights_try filterTipo outcome st = Inl err"
    using assms by (cases outcome rule: fetch_failed.cases) auto
  then obtain err where thrown: "fetchInsights_try filterTipo outcome st = Inl err" ..
  define msg where "msg = (if err \<noteq> [] then err else MSG_INSIGHTS_UNEXPECTED)"
  have "msg \<noteq> []"
    by (simp add: msg_def MSG_INSIGHTS_UNEXPECTED_nonempty)
  moreover have "fetchInsights_settle filterTipo outcome st =
      st\<lparr>ins_error := Some msg, ins_loading := False\<rparr>"
    by (simp add: fetchInsights_settle_def thrown fetchInsights_catch_def
        fetchInsights_finally_def msg_def)
  ultimately show ?thesis by blast
qed

lemma handleLoadPegging_settle_ok:
  "resp_ok status \<Longrightarrow>
     handleLoadPegging_settle (FetchResolves status (JsonResolves j)) st =
       st\<lparr>pg_result := j, pg_loading := False\<rparr> \<and>
     handleLoadPeggingDemo_settle code (FetchResolves status (JsonResolves j)) st =
       st\<lparr>pg_result := j, pg_loading := False\<rparr>"
  by (simp add: handleLoadPegging_settle_def handleLoadPeggingDemo_settle_def
      handleLoadPegging_finally_def)

lemma loadBoard_settle_ok:
  "resp_ok status \<Longrightarrow>
     loadBoard_settle (FetchResolves status (JsonResolves j)) st =
       st\<lparr>pb_board := j, pb_loadingBoard := False\<rparr>"
  by (simp add: loadBoard_settle_def loadBoard_finally_def)

lemma fetchCapacity_settle_ok:
  "resp_ok status \<Longrightarrow>
     fetchCapacity_settle (FetchResolves status (JsonResolves j)) st =
       st\<lparr>cap_data := j, cap_loading := False\<rparr>"
  by (simp add: fetchCapacity_settle_def fetchCapacity_finally_def)

text \<open>
  C2, as the claim states it, fails for the pegging panel of
  \<^verbatim>\<open>frontend/src/PeggingIaLite.js\<close>, which has no demo data: with the default material
  and a 500 response it ends with the error message set and no result.
\<close>

theorem pegging_without_demo_counterexample:
  "isValidMaterial (pg_materialInput pegging_initial) \<and>
   fetch_failed (FetchResolves 500 (JsonResolves (None :: pegging_payload option))) \<and>
   handleLoadPegging_settle (FetchResolves 500 (JsonResolves None))
       (fst (handleLoadPegging_start pegging_initial)) =
     \<lparr> pg_materialInput = DEFAULT_MATERIAL, pg_loading = False,
       pg_error = MSG_PEGGING_FAILED, pg_result = None \<rparr> \<and>
   MSG_PEGGING_FAILED \<noteq> []"
  using valid_examples(3)
  by (simp add: pegging_initial_def handleLoadPegging_start_def Let_def isValidMaterial_trim
      handleLoadPegging_settle_def handleLoadPegging_catch_def handleLoadPegging_finally_def
      resp_ok_def MSG_PEGGING_FAILED_nonempty)

text \<open>
  C2, amended. When the fetch fails (the fetch rejects, the status is not ok, or the body
  does not parse) after a trigger with a valid identifier, the pegging panel with the
  demo provider ends not loading, with an empty error message and the demo payload of
  the trimmed identifier as its result. Under the same failure the pegging panel
  without the demo provider, the planning board and the capacity, insights and overview
  panels end not loading and with a non-empty error message; the first three hold no
  payload, and the last two keep the payload they had.
\<close>

theorem fetch_failure_outcomes:
  "(isValidMaterial (pg_materialInput st) \<and> fetch_failed o1 \<longrightarrow>
      buildDemoResult (trim (pg_materialInput st)) \<noteq> None \<and>
      handleLoadPeggingDemo_settle (trim (pg_materialInput st)) o1
          (fst (handleLoadPegging_start st)) =
        st\<lparr>pg_loading := False, pg_error := [],
           pg_result := buildDemoResult (trim (pg_materialInput st))\<rparr> \<and>
      handleLoadPegging_settle o1 (fst (handleLoadPegging_start st)) =
        st\<lparr>pg_loading := False, pg_error := MSG_PEGGING_FAILED, pg_result := None\<rparr> \<and>
      MSG_PEGGING_FAILED \<noteq> []) \<and>
   (trim (pb_materialCode bs) \<noteq> [] \<and> fetch_failed o2 \<longrightarrow>
      loadBoard_settle o2 (fst (handleSubmit bs)) =
        bs\<lparr>pb_loadingBoard := False, pb_error := MSG_BOARD_FAILED, pb_board := None\<rparr> \<and>
      MSG_BOARD_FAILED \<noteq> []) \<and>
   (fetch_failed o3 \<longrightarrow>
      fetchCapacity_settle o3 (fetchCapacity_start cs) =
        cs\<lparr>cap_loading := False, cap_error := MSG_CAPACITY_FAILED, cap_data := None\<rparr> \<and>
      MSG_CAPACITY_FAILED \<noteq> []) \<and>
   (fetch_failed o4 \<longrightarrow>
      (\<exists>msg. msg \<noteq> [] \<and>
         fetchInsights_settle filterTipo o4 (fetchInsights_start is) =
           is\<lparr>ins_loading := False, ins_error := Some msg\<rparr>)) \<and>
   (fetch_failed o5 \<longrightarrow>
      fetchData_settle o5 as = as\<lparr>app_loading := False, app_error := MSG_APP_FAILED\<rparr> \<and>
      MSG_APP_FAILED \<noteq> [])"
proof (intro conjI impI)
  assume a: "isValidMaterial (pg_materialInput st) \<and> fetch_failed o1"
  define code where "code = trim (pg_materialInput st)"
  have start: "fst (handleLoadPegging_start st) =
      st\<lparr>pg_loading := True, pg_error := [], pg_result := None\<rparr>"
    using a by (simp add: handleLoadPegging_start_def Let_def isValidMaterial_trim)
  from a have "buildDemoResult code \<noteq> None"
    unfolding code_def by (simp add: buildDemoResult_valid)
  then obtain demo where demo: "buildDemoResult code = Some demo" by blast
  show "buildDemoResult (trim (pg_materialInput st)) \<noteq> None"
    using demo by (simp add: code_def)
  show "handleLoadPeggingDemo_settle (trim (pg_materialInput st)) o1
          (fst (handleLoadPegging_start st)) =
        st\<lparr>pg_loading := False, pg_error := [],
           pg_result := buildDemoResult (trim (pg_materialInput st))\<rparr>"
    using a demo
    by (simp add: start code_def [symmetric] handleLoadPeggingDemo_settle_failed)
  show "handleLoadPegging_settle o1 (fst (handleLoadPegging_start st)) =
        st\<lparr>pg_loading := False, pg_error := MSG_PEGGING_FAILED, pg_result := None\<rparr>"
    using a by (simp add: start handleLoadPegging_settle_failed)
  show "MSG_PEGGING_FAILED \<noteq> []"
    by (rule MSG_PEGGING_FAILED_nonempty)
next
  assume b: "trim (pb_materialCode bs) \<noteq> [] \<and> fetch_failed o2"
  then have "pb_materialCode bs \<noteq> []"
    by (auto simp: trim_def)
  with b show "loadBoard_settle o2 (fst (handleSubmit bs)) =
        bs\<lparr>pb_loadingBoard := False, pb_error := MSG_BOARD_FAILED, pb_board := None\<rparr>"
    by (simp add: handleSubmit_def loadBoard_start_def loadBoard_settle_failed)
  show "MSG_BOARD_FAILED \<noteq> []"
    by (rule MSG_BOARD_FAILED_nonempty)
next
  assume "fetch_failed o3"
  then show "fetchCapacity_settle o3 (fetchCapacity_start cs) =
        cs\<lparr>cap_loading := False, cap_error := MSG_CAPACITY_FAILED, cap_data := None\<rparr>"
    by (simp add: fetchCapacity_start_def fetchCapacity_settle_failed)
  show "MSG_CAPACITY_FAILED \<noteq> []"
    by (rule MSG_CAPACITY_FAILED_nonempty)
next
  assume "fetch_failed o4"
  then obtain msg where "msg \<noteq> []"
    and "fetchInsights_settle filterTipo o4 (fetchInsights_start is) =
      (fetchInsights_start is)\<lparr>ins_error := Some msg, ins_loading := False\<rparr>"
    using fetchInsights_settle_failed by blast
  then show "\<exists>msg. msg \<noteq> [] \<and>
         fetchInsights_settle filterTipo o4 (fetchInsights_start is) =
           is\<lparr>ins_loading := False, ins_error := Some msg\<rparr>"
    by (auto simp: fetchInsights_start_def)
next
  assume "fetch_failed o5"
  then show "fetchData_settle o5 as = as\<lparr>app_loading := False, app_error := MSG_APP_FAILED\<rparr>"
    by (simp add: fetchData_settle_failed)
  show "MSG_APP_FAILED \<noteq> []"
    by (rule MSG_APP_FAILED_nonempty)
qed

theorem fetch_failure_outcomes_witness:
  "handleLoadPeggingDemo_settle (js ''4011835-AA'')
       (FetchResolves 500 (JsonResolves None)) (fst (handleLoadPegging_start pegging_initial)) =
     pegging_initial\<lparr>pg_result := Some DEMO_PEGGING_4011835\<rparr> \<and>
   handleLoadPegging_settle (FetchResolves 500 (JsonResolves None))
       (fst (handleLoadPegging_start pegging_initial)) =
     pegging_initial\<lparr>pg_error := MSG_PEGGING_FAILED\<rparr> \<and>
   loadBoard_settle (FetchRejects (js ''Failed to fetch''))
       (fst (handleSubmit (board_initial :: nat board_state))) =
     board_initial\<lparr>pb_error := MSG_BOARD_FAILED\<rparr> \<and>
   fetchCapacity_settle (FetchResolves 200 (JsonRejects (js ''Unexpected token'')))
       (fetchCapacity_start capacity_initial) =
     capacity_initial\<lparr>cap_loading := False, cap_error := MSG_CAPACITY_FAILED\<rparr> \<and>
   (\<exists>msg. msg \<noteq> [] \<and>
      fetchInsights_settle None (FetchResolves 404 (JsonResolves None))
        (fetchInsights_start insights_initial) =
      insights_initial\<lparr>ins_loading := False, ins_error := Some msg\<rparr>) \<and>
   fetchData_settle (FetchRejects (js ''Failed to fetch'')) (app_initial :: nat app_state) =
     app_initial\<lparr>app_loading := False, app_error := MSG_APP_FAILED\<rparr>"
proof -
  have failed: "fetch_failed (FetchResolves 500 (JsonResolves (None :: pegging_payload option)))"
    "fetch_failed (FetchRejects (js ''Failed to fetch'') :: nat option fetch_outcome)"
    "fetch_failed (FetchResolves 200 (JsonRejects (js ''Unexpected token''))
       :: capacity_data option fetch_outcome)"
    "fetch_failed (FetchResolves 404 (JsonResolves (None :: insights_payload option)))"
    by (simp_all add: resp_ok_def)
  have valid: "isValidMaterial (pg_materialInput pegging_initial)"
    by (simp add: pegging_initial_def valid_examples)
  have code: "trim (pg_materialInput pegging_initial) = js ''4011835-AA''"
    "trim (pb_materialCode (board_initial :: nat board_state)) \<noteq> []"
    by (simp_all add: pegging_initial_def board_initial_def DEFAULT_MATERIAL_def trim_examples)
      (simp add: js_def)
  have demo: "buildDemoResult (js ''4011835-AA'') = Some DEMO_PEGGING_4011835"
    by (simp add: buildDemoResult_def Let_def trim_def is_white_space_def DEFAULT_MATERIAL_def
        js_def)
  show ?thesis
    using fetch_failure_outcomes [of pegging_initial "FetchResolves 500 (JsonResolves None)"
        "board_initial :: nat board_state" "FetchRejects (js ''Failed to fetch'')"
        "FetchResolves 200 (JsonRejects (js ''Unexpected token''))" capacity_initial
        "FetchResolves 404 (JsonResolves None)" None insights_initial
        "FetchRejects (js ''Failed to fetch'')" "app_initial :: nat app_state"]
      failed valid code demo
    by (simp add: pegging_initial_def board_initial_def capacity_initial_def
        insights_initial_def app_initial_def)
qed

section \<open>Sorting the resources\<close>

lemma mset_insert_sorted: "mset (insert_sorted cmp x ys) = add_mset x (mset ys)"
  by (induction ys) simp_all

lemma mset_js_sort: "mset (js_sort cmp xs) = mset xs"
  by (induction xs) (simp_all add: js_sort_def mset_insert_sorted)

lemma set_js_sort: "set (js_sort cmp xs) = set xs"
  by (metis mset_js_sort set_mset_mset)

lemma length_js_sort: "length (js_sort cmp xs) = length xs"
  by (metis mset_js_sort size_mset)

lemma js_sort_Nil: "(js_sort cmp xs = []) = (xs = [])"
  by (metis length_js_sort length_0_conv)

lemma set_insert_sorted: "set (insert_sorted cmp x ys) = insert x (set ys)"
  by (metis mset_insert_sorted set_mset_add_mset_insert set_mset_mset)

lemma sorted_insert_sorted:
  "sorted_wrt (\<lambda>a b. utilizacao_or_0 b \<le> utilizacao_or_0 a) ys \<Longrightarrow>
   sorted_wrt (\<lambda>a b. utilizacao_or_0 b \<le> utilizacao_or_0 a) (insert_sorted by_utilizacao x ys)"
proof (induction ys)
  case Nil
  show ?case by simp
next
  case (Cons y ys)
  show ?case
  proof (cases "by_utilizacao x y \<le> 0")
    case True
    then have "utilizacao_or_0 y \<le> utilizacao_or_0 x"
      by (simp add: by_utilizacao_def)
    with Cons.prems True show ?thesis
      by (fastforce)
  next
    case False
    then have "utilizacao_or_0 x \<le> utilizacao_or_0 y"
      by (simp add: by_utilizacao_def)
    with Cons False show ?thesis
      by (simp add: set_insert_sorted)
  qed
qed

lemma sorted_js_sort:
  "sorted_wrt (\<lambda>a b. utilizacao_or_0 b \<le> utilizacao_or_0 a) (js_sort by_utilizacao xs)"
proof (induction xs)
  case Nil
  show ?case by (simp add: js_sort_def)
next
  case (Cons x xs)
  then show ?case
    using sorted_insert_sorted [of "js_sort by_utilizacao xs" x]
    by (simp add: js_sort_def)
qed

lemma chartData_no_null:
  "None \<notin> set xs \<Longrightarrow>
     \<exists>rows. chartData xs = Inr rows \<and> map row_utilizacao rows = map utilizacao_or_0 xs"
proof (induction xs)
  case Nil
  show ?case by simp
next
  case (Cons a xs)
  then obtain r where a: "a = Some r" by (cases a) auto
  from Cons obtain rows where "chartData xs = Inr rows"
    and "map row_utilizacao rows = map utilizacao_or_0 xs"
    by auto
  then show ?case
    by (simp add: a)
qed

lemma sortedResources_store_Some:
  assumes "r < length h"
  shows "sortedResources_store (Some r) h =
           (length h, h @ [js_sort by_utilizacao (elements h r)])"
  using assms
  by (simp add: sortedResources_store_def alloc_def sort_in_place_def elements_def nth_append)

lemma sortedResources_store_None:
  "sortedResources_store None h = (Suc (length h), h @ [[], []])"
  by (simp add: sortedResources_store_def alloc_def sort_in_place_def elements_def nth_append
      js_sort_def)

lemma example_evals:
  "safeInsights (example_capacity rs) = rs"
  "None \<notin> set example_resources"
  "example_resources \<noteq> []"
  "sortedResources (example_capacity example_resources) =
     [example_resource ''R3'' (Some 120), example_resource ''R1'' (Some 80),
      example_resource ''R2'' None]"
  by (simp_all add: safeInsights_def example_capacity_def example_resources_def
      example_resource_def sortedResources_def js_sort_def by_utilizacao_def utilizacao_or_0_def)

text \<open>
  C9. For every capacity payload the resources are shown in non-increasing order of
  \<^verbatim>\<open>utilizacao_pct\<close>, a missing or null value (or a null element) counting as 0:
  \<open>sortedResources\<close> is a permutation of the payload's insights in that order, and when
  no element is null the chart rows and the cards are rendered in that order. The sort
  works on a copy: in the store, the new array holds the sorted elements and every array
  that existed before, the payload's own among them, is unchanged.
\<close>

theorem sortedResources_descending:
  "sorted_wrt (\<lambda>a b. utilizacao_or_0 b \<le> utilizacao_or_0 a) (sortedResources d) \<and>
   mset (sortedResources d) = mset (safeInsights d) \<and>
   (None \<notin> set (safeInsights d) \<longrightarrow>
      (\<exists>rows. capacity_render \<lparr> cap_data = Some d, cap_loading = False, cap_error = [] \<rparr> =
           CapPanel rows (sortedResources d) \<and>
         map row_utilizacao rows = map utilizacao_or_0 (sortedResources d) \<and>
         sorted_wrt (\<lambda>x y. y \<le> x) (map row_utilizacao rows))) \<and>
   (r < length h \<and> elements h r = safeInsights d \<longrightarrow>
      (let (copy, h') = sortedResources_store (Some r) h
       in elements h' copy = sortedResources d \<and> copy \<noteq> r \<and>
          (\<forall>r' < length h. elements h' r' = elements h r'))) \<and>
   (\<forall>r' < length h. elements (snd (sortedResources_store None h)) r' = elements h r')"
proof (intro conjI impI)
  show sorted: "sorted_wrt (\<lambda>a b. utilizacao_or_0 b \<le> utilizacao_or_0 a) (sortedResources d)"
    by (simp add: sortedResources_def sorted_js_sort)
  show "mset (sortedResources d) = mset (safeInsights d)"
    by (simp add: sortedResources_def mset_js_sort)
  {
    assume "None \<notin> set (safeInsights d)"
    then have "None \<notin> set (sortedResources d)"
      by (simp add: sortedResources_def set_js_sort)
    then obtain rows where rows: "chartData (sortedResources d) = Inr rows"
      and util: "map row_utilizacao rows = map utilizacao_or_0 (sortedResources d)"
      using chartData_no_null by blast
    have "sorted_wrt (\<lambda>x y. y \<le> x) (map row_utilizacao rows)"
      using sorted by (simp add: util sorted_wrt_map)
    then show "\<exists>rows. capacity_render \<lparr> cap_data = Some d, cap_loading = False, cap_error = [] \<rparr> =
           CapPanel rows (sortedResources d) \<and>
         map row_utilizacao rows = map utilizacao_or_0 (sortedResources d) \<and>
         sorted_wrt (\<lambda>x y. y \<le> x) (map row_utilizacao rows)"
      using rows util by (simp add: capacity_render_def)
  }
  {
    assume a: "r < length h \<and> elements h r = safeInsights d"
    then show "let (copy, h') = sortedResources_store (Some r) h
       in elements h' copy = sortedResources d \<and> copy \<noteq> r \<and>
          (\<forall>r' < length h. elements h' r' = elements h r')"
      by (auto simp: sortedResources_store_Some sortedResources_def elements_def nth_append)
  }
  show "\<forall>r' < length h. elements (snd (sortedResources_store None h)) r' = elements h r'"
    by (simp add: sortedResources_store_None elements_def nth_append)
qed

theorem sortedResources_descending_witness:
  "sortedResources (example_capacity example_resources) =
     [example_resource ''R3'' (Some 120), example_resource ''R1'' (Some 80),
      example_resource ''R2'' None] \<and>
   (\<exists>rows. capacity_render \<lparr> cap_data = Some (example_capacity example_resources),
              cap_loading = False, cap_error = [] \<rparr> =
            CapPanel rows (sortedResources (example_capacity example_resources)) \<and>
          map row_utilizacao rows = [120, 80, 0]) \<and>
   snd (sortedResources_store (Some 0) [example_resources]) =
     [example_resources, sortedResources (example_capacity example_resources)]"
proof -
  have store: "0 < length [example_resources] \<and>
      elements [example_resources] 0 = safeInsights (example_capacity example_resources)"
    by (simp add: elements_def example_evals)
  have util: "map utilizacao_or_0 (sortedResources (example_capacity example_resources)) =
      [120, 80, 0]"
    by (simp add: example_evals example_resource_def utilizacao_or_0_def)
  show ?thesis
    using sortedResources_descending [of "example_capacity example_resources" 0
        "[example_resources]"] store util example_evals
    by (auto simp: sortedResources_store_Some elements_def)
qed

section \<open>Empty payloads\<close>

text \<open>
  C7. After a successful pegging fetch with payload \<open>p\<close> the empty-state message is shown
  exactly when \<open>p\<close> has no orders or \<^verbatim>\<open>sem_ordens\<close> is set, and no error banner is
  rendered in either case. After a successful capacity fetch a null body renders the
  no-data message, a payload without resources renders the panel with both empty
  messages, and a payload with resources renders the chart rows and cards; none of the
  three is the error banner.
\<close>

theorem empty_classification:
  "(isValidMaterial (pg_materialInput st) \<and> resp_ok status \<longrightarrow>
      (let st2 = handleLoadPegging_settle (FetchResolves status (JsonResolves (Some p)))
                   (fst (handleLoadPegging_start st));
           v = pegging_render st2
       in pv_error_banner v = None \<and> pv_summary v = Some p \<and>
          pv_order_cards v = ordens_list p \<and>
          pv_empty_message v = (ordens_list p = [] \<or> sem_ordens p))) \<and>
   (resp_ok status \<longrightarrow>
      capacity_render (fetchCapacity_settle (FetchResolves status (JsonResolves None))
        (fetchCapacity_start cs)) = CapNoData) \<and>
   (resp_ok status \<and> safeInsights d = [] \<longrightarrow>
      capacity_render (fetchCapacity_settle (FetchResolves status (JsonResolves (Some d)))
        (fetchCapacity_start cs)) = CapPanel [] []) \<and>
   (resp_ok status \<and> safeInsights d \<noteq> [] \<and> None \<notin> set (safeInsights d) \<longrightarrow>
      (\<exists>rows. rows \<noteq> [] \<and> sortedResources d \<noteq> [] \<and>
         capacity_render (fetchCapacity_settle (FetchResolves status (JsonResolves (Some d)))
           (fetchCapacity_start cs)) = CapPanel rows (sortedResources d)))"
proof (intro conjI impI)
  assume a: "isValidMaterial (pg_materialInput st) \<and> resp_ok status"
  then have start: "fst (handleLoadPegging_start st) =
      st\<lparr>pg_loading := True, pg_error := [], pg_result := None\<rparr>"
    by (simp add: handleLoadPegging_start_def Let_def isValidMaterial_trim)
  from a show "let st2 = handleLoadPegging_settle (FetchResolves status (JsonResolves (Some p)))
                   (fst (handleLoadPegging_start st));
           v = pegging_render st2
       in pv_error_banner v = None \<and> pv_summary v = Some p \<and>
          pv_order_cards v = ordens_list p \<and>
          pv_empty_message v = (ordens_list p = [] \<or> sem_ordens p)"
    by (simp add: start handleLoadPegging_settle_ok pegging_render_def nenhumaOrdem_def
        pegging_ordens_def)
next
  assume "resp_ok status"
  then show "capacity_render (fetchCapacity_settle (FetchResolves status (JsonResolves None))
        (fetchCapacity_start cs)) = CapNoData"
    by (simp add: fetchCapacity_settle_ok fetchCapacity_start_def capacity_render_def)
next
  assume "resp_ok status \<and> safeInsights d = []"
  then show "capacity_render (fetchCapacity_settle (FetchResolves status (JsonResolves (Some d)))
        (fetchCapacity_start cs)) = CapPanel [] []"
    by (simp add: fetchCapacity_settle_ok fetchCapacity_start_def capacity_render_def
        sortedResources_def js_sort_def)
next
  assume a: "resp_ok status \<and> safeInsights d \<noteq> [] \<and> None \<notin> set (safeInsights d)"
  then have "None \<notin> set (sortedResources d)"
    by (simp add: sortedResources_def set_js_sort)
  then obtain rows where rows: "chartData (sortedResources d) = Inr rows"
    and util: "map row_utilizacao rows = map utilizacao_or_0 (sortedResources d)"
    using chartData_no_null by blast
  have nonempty: "sortedResources d \<noteq> []"
    using a by (simp add: sortedResources_def js_sort_Nil)
  then have "rows \<noteq> []"
    using util by auto
  moreover have "capacity_render (fetchCapacity_settle
        (FetchResolves status (JsonResolves (Some d))) (fetchCapacity_start cs)) =
      CapPanel rows (sortedResources d)"
    using a by (simp add: fetchCapacity_settle_ok fetchCapacity_start_def capacity_render_def rows)
  ultimately show "\<exists>rows. rows \<noteq> [] \<and> sortedResources d \<noteq> [] \<and>
         capacity_render (fetchCapacity_settle (FetchResolves status (JsonResolves (Some d)))
           (fetchCapacity_start cs)) = CapPanel rows (sortedResources d)"
    using nonempty by blast
qed

theorem empty_classification_witness:
  "pv_empty_message (pegging_render (handleLoadPegging_settle
       (FetchResolves 200 (JsonResolves (Some example_no_orders)))
       (fst (handleLoadPegging_start pegging_initial)))) \<and>
   pv_error_banner (pegging_render (handleLoadPegging_settle
       (FetchResolves 200 (JsonResolves (Some example_no_orders)))
       (fst (handleLoadPegging_start pegging_initial)))) = None \<and>
   \<not> pv_empty_message (pegging_render (handleLoadPegging_settle
       (FetchResolves 200 (JsonResolves (Some DEMO_PEGGING_4011835)))
       (fst (handleLoadPegging_start pegging_initial)))) \<and>
   capacity_render (fetchCapacity_settle (FetchResolves 200 (JsonResolves None))
       (fetchCapacity_start capacity_initial)) = CapNoData \<and>
   capacity_render (fetchCapacity_settle
       (FetchResolves 200 (JsonResolves (Some (example_capacity []))))
       (fetchCapacity_start capacity_initial)) = CapPanel [] [] \<and>
   (\<exists>rows. rows \<noteq> [] \<and>
      capacity_render (fetchCapacity_settle
        (FetchResolves 200 (JsonResolves (Some (example_capacity example_resources))))
        (fetchCapacity_start capacity_initial)) =
      CapPanel rows (sortedResources (example_capacity example_resources)))"
proof -
  have ok: "resp_ok 200"
    by (simp add: resp_ok_def)
  have valid: "isValidMaterial (pg_materialInput pegging_initial)"
    by (simp add: pegging_initial_def valid_examples)
  have orders: "ordens_list example_no_orders = []" "ordens_list DEMO_PEGGING_4011835 \<noteq> []"
    "\<not> sem_ordens DEMO_PEGGING_4011835"
    by (simp_all add: example_no_orders_def DEMO_PEGGING_4011835_def DEMO_ordens_def)
  show ?thesis
    using empty_classification [of pegging_initial 200 example_no_orders capacity_initial
        "example_capacity []"]
      empty_classification [of pegging_initial 200 DEMO_PEGGING_4011835 capacity_initial
        "example_capacity example_resources"]
      ok valid orders example_evals
    by (simp add: Let_def)
qed

section \<open>Requests in flight\<close>

lemma pegging_settle_loading: "\<not> pg_loading (pegging_settle v code outcome st)"
  by (cases v)
    (simp_all add: handleLoadPegging_settle_def handleLoadPeggingDemo_settle_def
      handleLoadPegging_finally_def)

lemma handleLoadPegging_start_loading:
  "handleLoadPegging_start st = (st', req) \<Longrightarrow>
     (req = None \<longrightarrow> pg_loading st' = pg_loading st) \<and> (req \<noteq> None \<longrightarrow> pg_loading st')"
  by (auto simp: handleLoadPegging_start_def Let_def split: if_splits)

lemma pegging_inv_iff:
  "pegging_inv s \<longleftrightarrow>
     (pending s = [] \<and> \<not> pg_loading (ui s)) \<or>
     (\<exists>rid code. pending s = [(rid, code)] \<and> pg_loading (ui s) \<and> Suc rid = issued s)"
  by (auto simp: pegging_inv_def split: list.splits prod.splits)

lemma pegging_step_inv: "pegging_inv s \<Longrightarrow> pegging_inv (pegging_step v ev s)"
proof (cases ev)
  case Mount
  assume "pegging_inv s"
  with Mount show ?thesis by simp
next
  case (Change c)
  assume "pegging_inv s"
  with Change show ?thesis
    by (simp add: pegging_inv_iff)
next
  case Submit
  assume inv: "pegging_inv s"
  show ?thesis
  proof (cases "pg_loading (ui s)")
    case True
    with Submit inv show ?thesis
      by (simp add: pegging_render_def)
  next
    case False
    with inv have idle: "pending s = []"
      by (auto simp: pegging_inv_iff)
    obtain st' req where start: "handleLoadPegging_start (ui s) = (st', req)"
      by (cases "handleLoadPegging_start (ui s)")
    with handleLoadPegging_start_loading [OF start] Submit False idle show ?thesis
      by (cases req) (simp_all add: pegging_render_def dispatch_def pegging_inv_iff)
  qed
next
  case (Settle rid outcome)
  assume inv: "pegging_inv s"
  show ?thesis
  proof (cases "map_of (pending s) rid")
    case None
    with Settle inv show ?thesis by simp
  next
    case (Some code)
    with inv have one: "pending s = [(rid, code)]"
      by (auto simp: pegging_inv_iff split: if_splits)
    with Settle Some show ?thesis
      by (simp add: pegging_inv_iff forget_def pegging_settle_loading)
  qed
qed

lemma pegging_run_inv: "pegging_inv s \<Longrightarrow> pegging_inv (pegging_run v evs s)"
  unfolding pegging_run_def
  by (induction evs arbitrary: s) (simp_all add: pegging_step_inv)

lemma pegging_initial_inv: "pegging_inv (sys_initial pegging_initial)"
  by (simp add: pegging_inv_iff sys_initial_def pegging_initial_def)

lemma pegging_reachable_inv: "pegging_inv (pegging_run v evs (sys_initial pegging_initial))"
  by (simp add: pegging_run_inv pegging_initial_inv)

lemma example_race_state:
  "board_run example_race (sys_initial board_initial) =
     \<lparr> ui = \<lparr> pb_materialCode = js ''B7'', pb_board = Some 2, pb_loadingBoard = False,
              pb_error = [] \<rparr>,
       pending = [(0, DEFAULT_MATERIAL)], issued = 2 \<rparr>"
  by (simp add: example_race_def board_run_def sys_initial_def board_initial_def
      board_mount_def handleSubmit_def loadBoard_start_def dispatch_def forget_def
      loadBoard_settle_ok resp_ok_def default_material_evals)

text \<open>
  C8. In the pegging panel, in every state reached from the initial one, at most one
  request is pending; while the loading flag is set the button is disabled and a click
  changes nothing; and a request is pending only while the loading flag is set.
\<close>

theorem pegging_one_in_flight:
  "length (pending (pegging_run v evs (sys_initial pegging_initial))) \<le> 1 \<and>
   (pg_loading (ui (pegging_run v evs (sys_initial pegging_initial))) \<longrightarrow>
      pv_button_disabled (pegging_render (ui (pegging_run v evs (sys_initial pegging_initial)))) \<and>
      pegging_step v Submit (pegging_run v evs (sys_initial pegging_initial)) =
        pegging_run v evs (sys_initial pegging_initial)) \<and>
   (pending (pegging_run v evs (sys_initial pegging_initial)) \<noteq> [] \<longrightarrow>
      pg_loading (ui (pegging_run v evs (sys_initial pegging_initial))))"
  using pegging_reachable_inv [of v evs]
  by (auto simp: pegging_inv_iff pegging_render_def)

theorem pegging_one_in_flight_witness:
  "pending (pegging_run WithDemo example_clicks (sys_initial pegging_initial)) =
     [(0, DEFAULT_MATERIAL)] \<and>
   issued (pegging_run WithDemo example_clicks (sys_initial pegging_initial)) = 1 \<and>
   pg_loading (ui (pegging_run WithDemo example_clicks (sys_initial pegging_initial)))"
  using pegging_one_in_flight [of WithDemo example_clicks]
  by (simp add: example_clicks_def pegging_run_def sys_initial_def pegging_initial_def
      pegging_render_def handleLoadPegging_start_def dispatch_def Let_def
      default_material_evals isValidMaterial_trim valid_examples)

text \<open>
  C1, as the claim states it, fails for the planning board. The board mounts (request 0
  for the default material), the user types another code and submits (request 1) while
  request 0 is pending; request 1 settles first with payload 2; request 0, superseded,
  settles afterwards with payload 1, and its payload replaces the newer one.
\<close>

theorem stale_result_applied_counterexample:
  "pending (board_run example_race (sys_initial board_initial)) = [(0, DEFAULT_MATERIAL)] \<and>
   issued (board_run example_race (sys_initial board_initial)) = 2 \<and>
   pb_board (ui (board_run example_race (sys_initial board_initial))) = Some 2 \<and>
   pb_board (ui (board_step (Settle 0 (FetchResolves 200 (JsonResolves (Some 1))))
     (board_run example_race (sys_initial board_initial)))) = Some 1"
  by (simp add: example_race_state loadBoard_settle_ok resp_ok_def)

text \<open>
  C1, amended. No panel compares request identities. In the planning board the result of
  every pending request, superseded or not, is applied when it arrives: a success stores
  its payload as the board and clears the loading flag; a failure sets the error
  message and clears the board and the loading flag. In the pegging panel a second
  trigger cannot occur while a request is pending, so every pending request is the one
  issued last.
\<close>

theorem settle_applied_on_arrival:
  "(map_of (pending s) rid = Some code \<longrightarrow>
      ui (board_step (Settle rid outcome) s) = loadBoard_settle outcome (ui s) \<and>
      pending (board_step (Settle rid outcome) s) = forget rid (pending s)) \<and>
   (resp_ok status \<longrightarrow>
      loadBoard_settle (FetchResolves status (JsonResolves j)) bs =
        bs\<lparr>pb_board := j, pb_loadingBoard := False\<rparr>) \<and>
   (fetch_failed outcome \<longrightarrow>
      loadBoard_settle outcome bs =
        bs\<lparr>pb_error := MSG_BOARD_FAILED, pb_board := None, pb_loadingBoard := False\<rparr>) \<and>
   (\<forall>(n, c) \<in> set (pending (pegging_run v evs (sys_initial pegging_initial))).
      Suc n = issued (pegging_run v evs (sys_initial pegging_initial)))"
proof (intro conjI impI)
  assume "map_of (pending s) rid = Some code"
  then show "ui (board_step (Settle rid outcome) s) = loadBoard_settle outcome (ui s)"
    and "pending (board_step (Settle rid outcome) s) = forget rid (pending s)"
    by simp_all
next
  assume "resp_ok status"
  then show "loadBoard_settle (FetchResolves status (JsonResolves j)) bs =
        bs\<lparr>pb_board := j, pb_loadingBoard := False\<rparr>"
    by (rule loadBoard_settle_ok)
next
  assume "fetch_failed outcome"
  then show "loadBoard_settle outcome bs =
        bs\<lparr>pb_error := MSG_BOARD_FAILED, pb_board := None, pb_loadingBoard := False\<rparr>"
    by (rule loadBoard_settle_failed)
next
  show "\<forall>(n, c) \<in> set (pending (pegging_run v evs (sys_initial pegging_initial))).
      Suc n = issued (pegging_run v evs (sys_initial pegging_initial))"
    using pegging_reachable_inv [of v evs] by (auto simp: pegging_inv_iff)
qed

theorem settle_applied_on_arrival_witness:
  "ui (board_step (Settle 0 (FetchRejects (js ''Failed to fetch'')))
       (board_run example_race (sys_initial board_initial))) =
     \<lparr> pb_materialCode = js ''B7'', pb_board = (None :: nat option), pb_loadingBoard = False,
       pb_error = MSG_BOARD_FAILED \<rparr> \<and>
   pending (board_step (Settle 0 (FetchRejects (js ''Failed to fetch'')))
       (board_run example_race (sys_initial board_initial))) = [] \<and>
   pending (pegging_run WithoutDemo example_clicks (sys_initial pegging_initial)) =
     [(0, DEFAULT_MATERIAL)] \<and>
   issued (pegging_run WithoutDemo example_clicks (sys_initial pegging_initial)) = Suc 0"
proof -
  have failed: "fetch_failed (FetchRejects (js ''Failed to fetch'') :: nat option fetch_outcome)"
    by simp
  have is_pending: "map_of (pending (board_run example_race (sys_initial board_initial))) 0 =
      Some DEFAULT_MATERIAL"
    by (simp add: example_race_state)
  show ?thesis
    using settle_applied_on_arrival [of "board_run example_race (sys_initial board_initial)" 0
        DEFAULT_MATERIAL "FetchRejects (js ''Failed to fetch'')" 200 None
        "ui (board_run example_race (sys_initial board_initial))" WithoutDemo example_clicks]
      failed is_pending
    by (simp add: example_race_state forget_def resp_ok_def)
      (simp add: example_clicks_def pegging_run_def sys_initial_def pegging_initial_def
        pegging_render_def handleLoadPegging_start_def dispatch_def Let_def
        default_material_evals isValidMaterial_trim valid_examples)
qed

end
